theory Spec2Isabelle
  imports Main "HOL-Library.AList"
begin

section \<open>JavaScript values, strings and maps\<close>

text \<open>
  The two debugger adapters, \<^verbatim>\<open>javaDebugger.js\<close> (the REPL adapter driving \<^verbatim>\<open>jdb\<close>) and
  \<^verbatim>\<open>nodeDebugger.js\<close> (the message-protocol adapter driving the Node.js inspector), are
  embedded as state-passing functions. A JavaScript string is a \<^typ>\<open>string\<close> (characters of
  the Latin-1 range), a JavaScript number that the adapters read or produce is an \<^typ>\<open>int\<close>
  (line numbers, request ids and ports stay far below \<open>2^53\<close>, where a double is exact), a plain
  object used as a dictionary and a \<^verbatim>\<open>Map\<close> are association lists updated in place
  (insertion order, one entry per key). An exception is a value of type \<open>error\<close>.
\<close>

datatype error = Error string | TypeError string

datatype jsval = VUndefined | VNull | VBool bool | VNum int | VStr string

datatype var_entry = Var (vvalue: jsval) (vtype: string)

type_synonym snapshot = "(string \<times> var_entry) list"

text \<open>What the registered listeners are called with, per event channel.\<close>

datatype event =
    BreakpointHit int snapshot
  | StepComplete int snapshot
  | VariablesUpdated snapshot
  | Output string string

text \<open>The asynchronous operations of the adapter contract; a settled call is logged with its outcome.\<close>

datatype call = Start | SetBreakpoint int | Continue | StepOver | StepInto

fun startsWith :: "string \<Rightarrow> string \<Rightarrow> bool" where
  "startsWith s [] = True"
| "startsWith [] (p # ps) = False"
| "startsWith (c # cs) (p # ps) = (c = p \<and> startsWith cs ps)"

fun includesStr :: "string \<Rightarrow> string \<Rightarrow> bool" where
  "includesStr [] p = (p = [])"
| "includesStr (c # cs) p = (startsWith (c # cs) p \<or> includesStr cs p)"

definition endsWith :: "string \<Rightarrow> string \<Rightarrow> bool" where
  "endsWith s p = startsWith (rev s) (rev p)"

text \<open>The regular-expression classes \<^verbatim>\<open>\s\<close>, \<^verbatim>\<open>\w\<close>, \<^verbatim>\<open>\d\<close> and the line terminators
  that \<^verbatim>\<open>.\<close> does not match.\<close>

definition isSpace :: "char \<Rightarrow> bool" where
  "isSpace c = (c \<in> set [CHR 0x09, CHR 0x0A, CHR 0x0B, CHR 0x0C, CHR 0x0D, CHR 0x20, CHR 0xA0])"

definition isDigit :: "char \<Rightarrow> bool" where
  "isDigit c = (c \<in> set ''0123456789'')"

definition isWord :: "char \<Rightarrow> bool" where
  "isWord c = (c \<in> set ''abcdefghijklmnopqrstuvwxyzABCDEFGHIJKLMNOPQRSTUVWXYZ0123456789_'')"

definition isLineTerminator :: "char \<Rightarrow> bool" where
  "isLineTerminator c = (c = CHR 0x0A \<or> c = CHR 0x0D)"

definition trim :: "string \<Rightarrow> string" where
  "trim s = rev (dropWhile isSpace (rev (dropWhile isSpace s)))"

definition digitValue :: "char \<Rightarrow> nat" where
  "digitValue c = of_char c - 48"

text \<open>\<^verbatim>\<open>parseInt(ds, 10)\<close> on a non-empty string of decimal digits.\<close>

definition parseInt :: "string \<Rightarrow> int" where
  "parseInt ds = int (foldl (\<lambda>n c. 10 * n + digitValue c) 0 ds)"

text \<open>Template-literal conversion of an integer: \<^verbatim>\<open>`${n}`\<close>.\<close>

definition digitChar :: "nat \<Rightarrow> char" where
  "digitChar n = ''0123456789'' ! n"

fun natToString :: "nat \<Rightarrow> string" where
  "natToString n =
     (if n < 10 then [digitChar n] else natToString (n div 10) @ [digitChar (n mod 10)])"

declare natToString.simps [simp del]

definition intToString :: "int \<Rightarrow> string" where
  "intToString i = (if i < 0 then CHR ''-'' # natToString (nat (- i)) else natToString (nat i))"

text \<open>\<^verbatim>\<open>Map.prototype.has\<close> and the \<^verbatim>\<open>in\<close>-like lookup on a dictionary.\<close>

definition has :: "('k \<times> 'v) list \<Rightarrow> 'k \<Rightarrow> bool" where
  "has m k = (map_of m k \<noteq> None)"

text \<open>\<^verbatim>\<open>try { ... } catch (err) { ... }\<close>: the handler's value replaces a thrown error.\<close>

definition tryCatch :: "error + 'a \<Rightarrow> (error \<Rightarrow> 'a) \<Rightarrow> 'a" where
  "tryCatch r h = (case r of Inl e \<Rightarrow> h e | Inr v \<Rightarrow> v)"

section \<open>The shared shape of both adapters\<close>

text \<open>
  A spawned child process: what was spawned, whether \<^verbatim>\<open>kill()\<close> has been called on it, and
  what has been written to its standard input (with the time of the write and the code site
  that wrote it).
\<close>

datatype wsrc = ByQueue | ByGetVariables | ByStop

record proc =
  spawnfile :: string
  spawnargs :: "string list"
  killed :: bool
  stdin :: "(nat \<times> wsrc \<times> string) list"

text \<open>
  The fields both classes declare in their constructor, and the environment the embedding makes
  explicit: the clock (milliseconds), the pending \<^verbatim>\<open>setTimeout\<close> callbacks with their due
  times, the events handed to the listeners (\<^verbatim>\<open>_notifyListeners\<close>; listeners are assumed
  not to throw and not to call back into the adapter), and the outcome of every settled call
  of an asynchronous operation (\<open>Inl\<close> a rejection, \<open>Inr\<close> the returned boolean).
\<close>

record 't debugger =
  debugProcess :: "proc option"
  variables :: snapshot
  breakpoints :: "(int \<times> jsval) list"
  currentLine :: int
  isRunning :: bool
  now :: nat
  timers :: "(nat \<times> 't) list"
  emitted :: "event list"
  returned :: "(call \<times> (error + bool)) list"

definition notifyListeners :: "event \<Rightarrow> ('t, 'a) debugger_scheme \<Rightarrow> ('t, 'a) debugger_scheme" where
  "notifyListeners e s = s\<lparr>emitted := emitted s @ [e]\<rparr>"

definition setTimeout :: "'t \<Rightarrow> nat \<Rightarrow> ('t, 'a) debugger_scheme \<Rightarrow> ('t, 'a) debugger_scheme" where
  "setTimeout t d s = s\<lparr>timers := timers s @ [(now s + d, t)]\<rparr>"

definition settle :: "call \<Rightarrow> error + bool \<Rightarrow> ('t, 'a) debugger_scheme \<Rightarrow> ('t, 'a) debugger_scheme" where
  "settle c r s = s\<lparr>returned := returned s @ [(c, r)]\<rparr>"


text \<open>
  The timer that fires next: the earliest due time, the one set first among equals. A timer
  never fires before its due time; the clock jumps to the due time when it is still ahead.
\<close>

fun earliest :: "(nat \<times> 't) list \<Rightarrow> (nat \<times> 't) option" where
  "earliest [] = None"
| "earliest (x # xs) =
     (case earliest xs of
        None \<Rightarrow> Some x
      | Some y \<Rightarrow> if fst y < fst x then Some y else Some x)"

text \<open>\<^verbatim>\<open>this.debugProcess.stdin.write(text)\<close>; a \<^verbatim>\<open>null\<close> process handle throws.\<close>

definition stdinWrite :: "wsrc \<Rightarrow> string \<Rightarrow> ('t, 'a) debugger_scheme \<Rightarrow> error + ('t, 'a) debugger_scheme" where
  "stdinWrite src text s =
     (case debugProcess s of
        None \<Rightarrow> Inl (TypeError ''Cannot read properties of null (reading 'stdin')'')
      | Some p \<Rightarrow> Inr (s\<lparr>debugProcess := Some (p\<lparr>stdin := stdin p @ [(now s, src, text)]\<rparr>)\<rparr>))"

text \<open>\<^verbatim>\<open>this.debugProcess.kill()\<close>\<close>

definition processKill :: "('t, 'a) debugger_scheme \<Rightarrow> error + ('t, 'a) debugger_scheme" where
  "processKill s =
     (case debugProcess s of
        None \<Rightarrow> Inl (TypeError ''Cannot read properties of null (reading 'kill')'')
      | Some p \<Rightarrow> Inr (s\<lparr>debugProcess := Some (p\<lparr>killed := True\<rparr>)\<rparr>))"


section \<open>The REPL adapter: javaDebugger.js\<close>

subsection \<open>Classification of output lines\<close>

definition newline :: string where
  "newline = [CHR 0x0A]"

definition dquote :: string where
  "dquote = [CHR 0x22]"

text \<open>\<^verbatim>\<open>line.match(/line=(\d+)/)\<close>: the digits after the first \<^verbatim>\<open>line=\<close> that digits follow.\<close>

fun matchLineNumber :: "string \<Rightarrow> string option" where
  "matchLineNumber [] = None"
| "matchLineNumber (c # cs) =
     (if startsWith (c # cs) ''line='' \<and> takeWhile isDigit (drop 5 (c # cs)) \<noteq> []
      then Some (takeWhile isDigit (drop 5 (c # cs)))
      else matchLineNumber cs)"

text \<open>
  \<^verbatim>\<open>line.match(/^\s*(\w+)\s*=\s*(.+)$/)\<close>: the groups \<open>(name, value)\<close>. The character classes
  are disjoint, so each greedy run is maximal; only the run after \<^verbatim>\<open>=\<close> gives one character
  back when nothing else is left for \<^verbatim>\<open>(.+)\<close>.
\<close>

definition matchAssignment :: "string \<Rightarrow> (string \<times> string) option" where
  "matchAssignment l =
     (let s1 = dropWhile isSpace l;
          name = takeWhile isWord s1;
          s2 = dropWhile isSpace (dropWhile isWord s1)
      in if name = [] \<or> s2 = [] \<or> hd s2 \<noteq> CHR ''='' then None
         else (let w = takeWhile isSpace (tl s2);
                   r = dropWhile isSpace (tl s2)
               in if r \<noteq> [] then (if list_ex isLineTerminator r then None else Some (name, r))
                  else if w = [] \<or> isLineTerminator (last w) then None
                  else Some (name, [last w])))"

text \<open>\<^verbatim>\<open>!isNaN(value)\<close> on a string: the string-to-number grammar of the language.\<close>

definition exponentOk :: "string \<Rightarrow> bool" where
  "exponentOk r =
     (r = [] \<or>
      ((hd r = CHR ''e'' \<or> hd r = CHR ''E'') \<and>
       (let r1 = tl r;
            r2 = (if r1 \<noteq> [] \<and> (hd r1 = CHR ''+'' \<or> hd r1 = CHR ''-'') then tl r1 else r1)
        in r2 \<noteq> [] \<and> list_all isDigit r2)))"

definition unsignedDecimal :: "string \<Rightarrow> bool" where
  "unsignedDecimal s =
     (s = ''Infinity'' \<or>
      (let ip = takeWhile isDigit s;
           r1 = dropWhile isDigit s
       in if r1 \<noteq> [] \<and> hd r1 = CHR ''.''
          then (let fp = takeWhile isDigit (tl r1);
                    r2 = dropWhile isDigit (tl r1)
                in (ip \<noteq> [] \<or> fp \<noteq> []) \<and> exponentOk r2)
          else ip \<noteq> [] \<and> exponentOk r1))"

definition radixLiteral :: "string \<Rightarrow> string \<Rightarrow> string \<Rightarrow> string \<Rightarrow> bool" where
  "radixLiteral lo up ds s =
     ((startsWith s lo \<or> startsWith s up) \<and> drop 2 s \<noteq> [] \<and> list_all (\<lambda>c. c \<in> set ds) (drop 2 s))"

definition stringIsNumber :: "string \<Rightarrow> bool" where
  "stringIsNumber v =
     (let s = trim v
      in if s = [] then True
         else if startsWith s ''0x'' \<or> startsWith s ''0X''
           then radixLiteral ''0x'' ''0X'' ''0123456789abcdefABCDEF'' s
         else if startsWith s ''0o'' \<or> startsWith s ''0O''
           then radixLiteral ''0o'' ''0O'' ''01234567'' s
         else if startsWith s ''0b'' \<or> startsWith s ''0B''
           then radixLiteral ''0b'' ''0B'' ''01'' s
         else unsignedDecimal (if hd s = CHR ''+'' \<or> hd s = CHR ''-'' then tl s else s))"

definition java_inferType :: "string \<Rightarrow> string" where
  "java_inferType v =
     (if v = ''null'' then ''null''
      else if v = ''true'' \<or> v = ''false'' then ''boolean''
      else if stringIsNumber v then ''number''
      else if startsWith v dquote \<and> endsWith v dquote then ''string''
      else if includesStr v ''@'' then ''object''
      else ''unknown'')"

text \<open>\<^verbatim>\<open>path.basename(filePath, '.java')\<close>\<close>

definition basename :: "string \<Rightarrow> string \<Rightarrow> string" where
  "basename p ext =
     (let b = rev (takeWhile (\<lambda>c. c \<noteq> CHR ''/'') (dropWhile (\<lambda>c. c = CHR ''/'') (rev p)))
      in if p = ext then []
         else if endsWith b ext \<and> b \<noteq> ext then take (length b - length ext) b
         else b)"

subsection \<open>State\<close>

text \<open>
  What a caller of \<^verbatim>\<open>_queueCommand\<close> does when the promise settles: the rest of \<^verbatim>\<open>start\<close>
  after its first and second command, and the rest of each public operation.
\<close>

datatype jcont =
    AwaitStartBreak
  | AwaitStartRun
  | AwaitSetBreakpoint int
  | AwaitContinue
  | AwaitStepOver
  | AwaitStepInto

text \<open>
  The \<^verbatim>\<open>setTimeout\<close> callbacks of the class: the 3000 ms fallback of the initialisation
  wait; the 100 ms of \<^verbatim>\<open>_sendCommand\<close>, the 500 ms settle delay and the 100 ms before the
  flag is cleared, for a queued command; the 100 ms and the 1000 ms of \<^verbatim>\<open>_getVariables\<close>
  (the flag tells whether the landing line said \<^verbatim>\<open>Breakpoint hit:\<close>) and the 100 ms before
  the queue is looked at again; the 500 ms before \<^verbatim>\<open>stop\<close> kills the process.
\<close>

datatype jtimer =
    InitTimeout
  | SendDone jcont
  | SettleDone jcont
  | FlagClear
  | LocalsSent bool
  | LocalsSettled bool
  | ProcessNext
  | KillProcess

text \<open>
  \<open>rl\<close> is the line reader (\<open>Some True\<close> open, \<open>Some False\<close> closed); \<open>javac\<close> is the running
  compile with its arguments and the output captured so far; \<open>initPending\<close> says that the
  initialisation promise of \<^verbatim>\<open>start\<close> is not yet resolved and \<open>onInitialized\<close> that its line
  listener is registered.
\<close>

record java_state = "jtimer debugger" +
  rl :: "bool option"
  className :: "string option"
  filePath :: "string option"
  commandQueue :: "(string \<times> jcont) list"
  processingCommand :: bool
  javac :: "(string list \<times> string \<times> string) option"
  initPending :: bool
  onInitialized :: bool

definition JavaDebugger :: java_state where
  "JavaDebugger =
     \<lparr>debugProcess = None, variables = [], breakpoints = [], currentLine = 0,
      isRunning = False, now = 0, timers = [], emitted = [], returned = [],
      rl = None, className = None, filePath = None, commandQueue = [],
      processingCommand = False, javac = None, initPending = False, onInitialized = False\<rparr>"

definition classNameStr :: "java_state \<Rightarrow> string" where
  "classNameStr s = (case className s of None \<Rightarrow> ''null'' | Some c \<Rightarrow> c)"

subsection \<open>Operations\<close>

definition java_stop :: "java_state \<Rightarrow> error + java_state" where
  "java_stop s =
     (let s1 = (if debugProcess s \<noteq> None
                then setTimeout KillProcess 500
                       (tryCatch (stdinWrite ByStop (''quit'' @ newline) s) (\<lambda>err. s))
                else s);
          s2 = (if rl s1 \<noteq> None then s1\<lparr>rl := Some False\<rparr> else s1)
      in Inr (s2\<lparr>isRunning := False\<rparr>))"

text \<open>The \<^verbatim>\<open>catch\<close> block of \<^verbatim>\<open>start\<close>: \<^verbatim>\<open>this.stop(); throw err;\<close>\<close>

definition java_startFailed :: "error \<Rightarrow> java_state \<Rightarrow> java_state" where
  "java_startFailed err s =
     (case java_stop s of
        Inl e \<Rightarrow> settle Start (Inl e) s
      | Inr s' \<Rightarrow> settle Start (Inl err) s')"

definition java_reject :: "jcont \<Rightarrow> error \<Rightarrow> java_state \<Rightarrow> java_state" where
  "java_reject k err s =
     (case k of
        AwaitStartBreak \<Rightarrow> java_startFailed err s
      | AwaitStartRun \<Rightarrow> java_startFailed err s
      | AwaitSetBreakpoint line \<Rightarrow> settle (SetBreakpoint line) (Inr False) s
      | AwaitContinue \<Rightarrow> settle Continue (Inr False) s
      | AwaitStepOver \<Rightarrow> settle StepOver (Inr False) s
      | AwaitStepInto \<Rightarrow> settle StepInto (Inr False) s)"

text \<open>\<^verbatim>\<open>_sendCommand\<close>: the write, then the promise resolves 100 ms later (timer \<open>k\<close>).\<close>

definition java_sendCommand :: "wsrc \<Rightarrow> string \<Rightarrow> jtimer \<Rightarrow> java_state \<Rightarrow> error + java_state" where
  "java_sendCommand src command k s =
     (case stdinWrite src (command @ newline) s of
        Inl e \<Rightarrow> Inl e
      | Inr s' \<Rightarrow> Inr (setTimeout k 100 s'))"

definition java_processNextCommand :: "java_state \<Rightarrow> java_state" where
  "java_processNextCommand s =
     (if commandQueue s = [] \<or> processingCommand s then s
      else (case commandQueue s of
              [] \<Rightarrow> s
            | (command, k) # rest \<Rightarrow>
                (let s1 = s\<lparr>processingCommand := True, commandQueue := rest\<rparr>
                 in case java_sendCommand ByQueue command (SendDone k) s1 of
                      Inr s2 \<Rightarrow> s2
                    | Inl err \<Rightarrow> setTimeout FlagClear 100 (java_reject k err s1))))"

definition java_queueCommand :: "string \<Rightarrow> jcont \<Rightarrow> java_state \<Rightarrow> java_state" where
  "java_queueCommand command k s =
     (let s1 = s\<lparr>commandQueue := commandQueue s @ [(command, k)]\<rparr>
      in if \<not> processingCommand s1 then java_processNextCommand s1 else s1)"

definition java_resolve :: "jcont \<Rightarrow> java_state \<Rightarrow> java_state" where
  "java_resolve k s =
     (case k of
        AwaitStartBreak \<Rightarrow> java_queueCommand ''run'' AwaitStartRun s
      | AwaitStartRun \<Rightarrow> settle Start (Inr True) (s\<lparr>isRunning := True\<rparr>)
      | AwaitSetBreakpoint line \<Rightarrow>
          settle (SetBreakpoint line) (Inr True)
            (s\<lparr>breakpoints := AList.update line (VBool True) (breakpoints s)\<rparr>)
      | AwaitContinue \<Rightarrow> settle Continue (Inr True) s
      | AwaitStepOver \<Rightarrow> settle StepOver (Inr True) s
      | AwaitStepInto \<Rightarrow> settle StepInto (Inr True) s)"

text \<open>
  \<^verbatim>\<open>_getVariables\<close> up to its first \<^verbatim>\<open>await\<close>, as the landing handler calls it; the rest runs
  from the timers \<open>LocalsSent\<close> and \<open>LocalsSettled\<close>. When the write throws, the promise is
  rejected and the \<^verbatim>\<open>then\<close> callback of the landing handler never runs.
\<close>

definition java_getVariables :: "bool \<Rightarrow> java_state \<Rightarrow> java_state" where
  "java_getVariables bp s =
     (let s1 = s\<lparr>variables := []\<rparr>
      in case java_sendCommand ByGetVariables ''locals'' (LocalsSent bp) s1 of
           Inr s2 \<Rightarrow> s2
         | Inl err \<Rightarrow> s1)"

definition java_setBreakpoint :: "int \<Rightarrow> java_state \<Rightarrow> java_state" where
  "java_setBreakpoint line s =
     (if has (breakpoints s) line then settle (SetBreakpoint line) (Inr True) s
      else java_queueCommand (''stop at '' @ classNameStr s @ '':'' @ intToString line)
             (AwaitSetBreakpoint line) s)"

definition java_continue :: "java_state \<Rightarrow> java_state" where
  "java_continue s = java_queueCommand ''cont'' AwaitContinue s"

definition java_stepOver :: "java_state \<Rightarrow> java_state" where
  "java_stepOver s = java_queueCommand ''next'' AwaitStepOver s"

definition java_stepInto :: "java_state \<Rightarrow> java_state" where
  "java_stepInto s = java_queueCommand ''step'' AwaitStepInto s"


subsection \<open>Start\<close>

text \<open>\<^verbatim>\<open>_compile\<close>: spawn \<^verbatim>\<open>javac -g filePath\<close> and collect its output until it closes.\<close>

definition java_compile :: "java_state \<Rightarrow> java_state" where
  "java_compile s =
     s\<lparr>javac := Some ([''-g'', case filePath s of None \<Rightarrow> ''null'' | Some f \<Rightarrow> f], [], [])\<rparr>"

definition java_start :: "string \<Rightarrow> string option \<Rightarrow> java_state \<Rightarrow> java_state" where
  "java_start fp cn s =
     java_compile
       (s\<lparr>filePath := Some fp,
          className := Some (case cn of
                               None \<Rightarrow> basename fp ''.java''
                             | Some c \<Rightarrow> if c = [] then basename fp ''.java'' else c)\<rparr>)"

definition java_javacStdout :: "string \<Rightarrow> java_state \<Rightarrow> java_state" where
  "java_javacStdout d s =
     (case javac s of
        None \<Rightarrow> s
      | Some (a, out, err) \<Rightarrow> s\<lparr>javac := Some (a, out @ d, err)\<rparr>)"

definition java_javacStderr :: "string \<Rightarrow> java_state \<Rightarrow> java_state" where
  "java_javacStderr d s =
     (case javac s of
        None \<Rightarrow> s
      | Some (a, out, err) \<Rightarrow> s\<lparr>javac := Some (a, out, err @ d)\<rparr>)"

text \<open>
  The body of \<^verbatim>\<open>start\<close> after a successful compile, up to the initialisation wait: spawn
  \<^verbatim>\<open>jdb\<close>, create the line reader, register the handlers and the listener, set the fallback.
\<close>

definition java_spawnJdb :: "java_state \<Rightarrow> java_state" where
  "java_spawnJdb s =
     setTimeout InitTimeout 3000
       (s\<lparr>debugProcess := Some \<lparr>spawnfile = ''jdb'', spawnargs = [classNameStr s],
                                   killed = False, stdin = []\<rparr>,
          rl := Some True, initPending := True, onInitialized := True\<rparr>)"

text \<open>The \<^verbatim>\<open>close\<close> handler of the compile: exit code \<open>0\<close> resolves, anything else rejects
  (\<open>None\<close> is the \<^verbatim>\<open>null\<close> code of a compiler ended by a signal).\<close>

definition java_javacClose :: "int option \<Rightarrow> java_state \<Rightarrow> java_state" where
  "java_javacClose code s =
     (case javac s of
        None \<Rightarrow> s
      | Some (a, out, err) \<Rightarrow>
          (let s1 = s\<lparr>javac := None\<rparr>
           in if code = Some 0 then java_spawnJdb s1
              else java_startFailed (Error (''Compilation failed: '' @ err)) s1))"

text \<open>The initialisation promise resolves once; \<^verbatim>\<open>start\<close> goes on with its first command.\<close>

definition java_initResolved :: "java_state \<Rightarrow> java_state" where
  "java_initResolved s =
     (if initPending s
      then java_queueCommand (''stop in '' @ classNameStr s @ ''.main'') AwaitStartBreak
             (s\<lparr>initPending := False\<rparr>)
      else s)"

subsection \<open>The line handler of \<^verbatim>\<open>_setupEventHandlers\<close>\<close>

definition java_onLanding :: "string \<Rightarrow> java_state \<Rightarrow> java_state" where
  "java_onLanding l s =
     (if includesStr l ''Breakpoint hit:'' \<or> includesStr l ''Step completed:''
      then (case matchLineNumber l of
              None \<Rightarrow> s
            | Some ds \<Rightarrow>
                java_getVariables (includesStr l ''Breakpoint hit:'') (s\<lparr>currentLine := parseInt ds\<rparr>))
      else s)"

text \<open>An assignment to the key \<^verbatim>\<open>__proto__\<close> of a plain object adds no entry.\<close>

definition java_onAssignment :: "string \<Rightarrow> java_state \<Rightarrow> java_state" where
  "java_onAssignment l s =
     (case matchAssignment l of
        None \<Rightarrow> s
      | Some (varName, g) \<Rightarrow>
          (let varValue = trim g
           in if varName = ''__proto__'' then s
              else s\<lparr>variables :=
                       AList.update varName (Var (VStr varValue) (java_inferType varValue))
                         (variables s)\<rparr>))"

definition java_onExit :: "string \<Rightarrow> java_state \<Rightarrow> java_state" where
  "java_onExit l s =
     (if includesStr l ''The application exited''
      then java_processNextCommand
             ((notifyListeners (Output ''info'' ''Program execution completed'') s)
                \<lparr>isRunning := False, processingCommand := False\<rparr>)
      else s)"

definition java_onError :: "string \<Rightarrow> java_state \<Rightarrow> java_state" where
  "java_onError l s =
     (if includesStr l ''Exception occurred'' \<or> startsWith l ''ERROR:''
      then java_processNextCommand ((notifyListeners (Output ''error'' l) s)\<lparr>processingCommand := False\<rparr>)
      else s)"

definition java_onInitialized :: "string \<Rightarrow> java_state \<Rightarrow> java_state" where
  "java_onInitialized l s =
     (if onInitialized s \<and> includesStr l ''Initializing jdb''
      then java_initResolved (s\<lparr>onInitialized := False\<rparr>)
      else s)"

definition java_onLine :: "string \<Rightarrow> java_state \<Rightarrow> java_state" where
  "java_onLine l s =
     java_onInitialized l (java_onError l (java_onExit l (java_onAssignment l (java_onLanding l s))))"

subsection \<open>Timers and the environment\<close>

definition java_fire :: "jtimer \<Rightarrow> java_state \<Rightarrow> java_state" where
  "java_fire t s =
     (case t of
        InitTimeout \<Rightarrow> java_initResolved (s\<lparr>onInitialized := False\<rparr>)
      | SendDone k \<Rightarrow> setTimeout (SettleDone k) 500 s
      | SettleDone k \<Rightarrow> setTimeout FlagClear 100 (java_resolve k s)
      | FlagClear \<Rightarrow> java_processNextCommand (s\<lparr>processingCommand := False\<rparr>)
      | LocalsSent bp \<Rightarrow> setTimeout (LocalsSettled bp) 1000 s
      | LocalsSettled bp \<Rightarrow>
          (let s1 = notifyListeners (VariablesUpdated (variables s)) s;
               s2 = notifyListeners
                      (if bp then BreakpointHit (currentLine s1) (variables s1)
                       else StepComplete (currentLine s1) (variables s1)) s1
           in setTimeout ProcessNext 100 (s2\<lparr>processingCommand := False\<rparr>))
      | ProcessNext \<Rightarrow> java_processNextCommand s
      | KillProcess \<Rightarrow> tryCatch (processKill s) (\<lambda>err. s))"

definition java_tick :: "java_state \<Rightarrow> java_state" where
  "java_tick s =
     (case earliest (timers s) of
        None \<Rightarrow> s
      | Some (due, t) \<Rightarrow>
          java_fire t (s\<lparr>now := max (now s) due, timers := remove1 (due, t) (timers s)\<rparr>))"

text \<open>
  What happens to a session, one step at a time: a call of a public operation, output of the
  compiler or of \<^verbatim>\<open>jdb\<close>, the next timer firing, or time passing. \<^verbatim>\<open>start\<close> is called once,
  on a fresh instance, as the session registry does; the line reader delivers lines while it
  is open, and the process handlers exist once the process is spawned.
\<close>

datatype java_input =
    J_Start string "string option"
  | J_JavacStdout string
  | J_JavacStderr string
  | J_JavacClose "int option"
  | J_Line string
  | J_Stderr string
  | J_Close
  | J_SetBreakpoint int
  | J_Continue
  | J_StepOver
  | J_StepInto
  | J_Stop
  | J_Tick
  | J_Elapse nat

definition java_step :: "java_input \<Rightarrow> java_state \<Rightarrow> java_state" where
  "java_step i s =
     (case i of
        J_Start fp cn \<Rightarrow> if filePath s = None then java_start fp cn s else s
      | J_JavacStdout d \<Rightarrow> java_javacStdout d s
      | J_JavacStderr d \<Rightarrow> java_javacStderr d s
      | J_JavacClose code \<Rightarrow> java_javacClose code s
      | J_Line l \<Rightarrow> if rl s = Some True then java_onLine l s else s
      | J_Stderr d \<Rightarrow>
          if debugProcess s \<noteq> None then notifyListeners (Output ''error'' (trim d)) s else s
      | J_Close \<Rightarrow> if debugProcess s \<noteq> None then s\<lparr>isRunning := False\<rparr> else s
      | J_SetBreakpoint line \<Rightarrow> java_setBreakpoint line s
      | J_Continue \<Rightarrow> java_continue s
      | J_StepOver \<Rightarrow> java_stepOver s
      | J_StepInto \<Rightarrow> java_stepInto s
      | J_Stop \<Rightarrow> (case java_stop s of Inl e \<Rightarrow> s | Inr s' \<Rightarrow> s')
      | J_Tick \<Rightarrow> java_tick s
      | J_Elapse d \<Rightarrow> s\<lparr>now := now s + d\<rparr>)"

fun java_run :: "java_input list \<Rightarrow> java_state \<Rightarrow> java_state" where
  "java_run [] s = s"
| "java_run (i # is) s = java_run is (java_step i s)"


section \<open>The message-protocol adapter: nodeDebugger.js\<close>

subsection \<open>Messages\<close>

text \<open>
  The parts of an inbound message that the adapter reads. A remote object has a type, a
  primitive value (absent: \<open>VUndefined\<close>) and an optional description; a property descriptor
  has a name and an optional value; a scope has a type and the id of its object; a call frame
  has the 0-based line of its location and its scope chain.
\<close>

record remoteObject =
  rtype :: string
  rvalue :: jsval
  rdescription :: "string option"

record propertyDescriptor =
  pname :: string
  pvalue :: "remoteObject option"

record scope =
  scopeType :: string
  objectId :: string

record callFrame =
  lineNumber :: int
  scopeChain :: "scope list"

text \<open>The \<^verbatim>\<open>params\<close> of an event and the \<^verbatim>\<open>result\<close> of a reply, by shape.\<close>

datatype mparams =
    NoParams
  | PausedParams string "callFrame list"
  | ConsoleParams string "remoteObject list"

datatype payload =
    NoResult
  | ResultArray "propertyDescriptor list"
  | ResultObject "(string \<times> jsval) list"

record message =
  msgId :: "nat option"
  msgMethod :: "string option"
  msgParams :: mparams
  msgResult :: payload
  msgError :: "string option"

text \<open>The \<^verbatim>\<open>params\<close> of the requests the adapter sends.\<close>

datatype oparams =
    OEmpty
  | OGetProperties string bool
  | OGetScriptSource string
  | OSetBreakpointByUrl int string int

record wsclient =
  url :: string
  closeCalled :: bool
  sent :: "(nat \<times> string \<times> oparams) list"

subsection \<open>Value formatting\<close>

definition truthy :: "jsval \<Rightarrow> bool" where
  "truthy v =
     (case v of
        VUndefined \<Rightarrow> False
      | VNull \<Rightarrow> False
      | VBool b \<Rightarrow> b
      | VNum n \<Rightarrow> n \<noteq> 0
      | VStr s \<Rightarrow> s \<noteq> [])"

definition toStr :: "jsval \<Rightarrow> string" where
  "toStr v =
     (case v of
        VUndefined \<Rightarrow> ''undefined''
      | VNull \<Rightarrow> ''null''
      | VBool b \<Rightarrow> if b then ''true'' else ''false''
      | VNum n \<Rightarrow> intToString n
      | VStr s \<Rightarrow> s)"

definition node_formatValue :: "remoteObject \<Rightarrow> jsval" where
  "node_formatValue v =
     (if rtype v = ''undefined'' then VStr ''undefined''
      else if rtype v = ''null'' then VStr ''null''
      else if rtype v = ''string'' then VStr (dquote @ toStr (rvalue v) @ dquote)
      else if rtype v = ''number'' \<or> rtype v = ''boolean'' then rvalue v
      else if rtype v = ''object''
        then VStr (case rdescription v of None \<Rightarrow> ''[object]'' | Some d \<Rightarrow> if d = [] then ''[object]'' else d)
      else if rtype v = ''function'' then VStr ''[function]''
      else (case rdescription v of
              Some d \<Rightarrow> if d \<noteq> [] then VStr d
                        else if truthy (rvalue v) then rvalue v else VStr (rtype v)
            | None \<Rightarrow> if truthy (rvalue v) then rvalue v else VStr (rtype v)))"

text \<open>\<^verbatim>\<open>Array.prototype.join(' ')\<close>: \<^verbatim>\<open>undefined\<close> and \<^verbatim>\<open>null\<close> elements give the empty string.\<close>

fun joinSpace :: "jsval list \<Rightarrow> string" where
  "joinSpace [] = []"
| "joinSpace [v] = (if v = VUndefined \<or> v = VNull then [] else toStr v)"
| "joinSpace (v # w # vs) =
     (if v = VUndefined \<or> v = VNull then [] else toStr v) @ '' '' @ joinSpace (w # vs)"

subsection \<open>State\<close>

text \<open>
  What the sender of a request does when its promise settles: the four requests of the
  handshake in \<^verbatim>\<open>_connectToInspector\<close>; the rest of \<^verbatim>\<open>_updateVariables\<close> (the scopes still to
  visit) and then of \<^verbatim>\<open>_handlePaused\<close> (the reason of the pause); the rest of each public
  operation.
\<close>

datatype ncont =
    AwaitRuntimeEnable
  | AwaitDebuggerEnable
  | AwaitIsolateId
  | AwaitScriptSource
  | AwaitProperties "scope list" string
  | AwaitBreakpoint int
  | AwaitResume
  | AwaitNext
  | AwaitStep

datatype ntimer = StartDelay | RequestTimeout nat string

text \<open>\<open>connectPending\<close> says that the promise of \<^verbatim>\<open>_connectToInspector\<close> is not yet settled.\<close>

record node_state = "ntimer debugger" +
  debuggerClient :: "wsclient option"
  port :: int
  scriptId :: "string option"
  connected :: bool
  messageId :: nat
  pendingRequests :: "(nat \<times> ncont) list"
  connectPending :: bool

definition NodeDebugger :: node_state where
  "NodeDebugger =
     \<lparr>debugProcess = None, variables = [], breakpoints = [], currentLine = 0,
      isRunning = False, now = 0, timers = [], emitted = [], returned = [],
      debuggerClient = None, port = 9229, scriptId = None, connected = False,
      messageId = 1, pendingRequests = [], connectPending = False\<rparr>"

subsection \<open>Operations\<close>

text \<open>\<^verbatim>\<open>this.debuggerClient.close()\<close>\<close>

definition clientClose :: "node_state \<Rightarrow> error + node_state" where
  "clientClose s =
     (case debuggerClient s of
        None \<Rightarrow> Inl (TypeError ''Cannot read properties of null (reading 'close')'')
      | Some c \<Rightarrow> Inr (s\<lparr>debuggerClient := Some (c\<lparr>closeCalled := True\<rparr>)\<rparr>))"

definition node_stop :: "node_state \<Rightarrow> error + node_state" where
  "node_stop s =
     (let s1 = (if debuggerClient s \<noteq> None \<and> connected s
                then tryCatch (clientClose s) (\<lambda>err. s) else s);
          s2 = (if debugProcess s1 \<noteq> None then tryCatch (processKill s1) (\<lambda>err. s1) else s1)
      in Inr (s2\<lparr>isRunning := False\<rparr>))"

text \<open>The \<^verbatim>\<open>catch\<close> block of \<^verbatim>\<open>start\<close>: \<^verbatim>\<open>this.stop(); throw err;\<close>\<close>

definition node_startFailed :: "error \<Rightarrow> node_state \<Rightarrow> node_state" where
  "node_startFailed err s =
     (case node_stop s of
        Inl e \<Rightarrow> settle Start (Inl e) s
      | Inr s' \<Rightarrow> settle Start (Inl err) s')"

text \<open>\<^verbatim>\<open>reject(err)\<close> of the connection promise: the first settlement counts.\<close>

definition node_connectRejected :: "error \<Rightarrow> node_state \<Rightarrow> node_state" where
  "node_connectRejected err s =
     (if connectPending s then node_startFailed err (s\<lparr>connectPending := False\<rparr>) else s)"

text \<open>
  A request's promise is rejected. \<^verbatim>\<open>_handlePaused\<close> is not awaited by its caller and
  catches nothing: a rejected property request ends it without any notification.
\<close>

definition node_reject :: "ncont \<Rightarrow> error \<Rightarrow> node_state \<Rightarrow> node_state" where
  "node_reject k err s =
     (case k of
        AwaitRuntimeEnable \<Rightarrow> node_connectRejected err s
      | AwaitDebuggerEnable \<Rightarrow> node_connectRejected err s
      | AwaitIsolateId \<Rightarrow> node_connectRejected err s
      | AwaitScriptSource \<Rightarrow> node_connectRejected err s
      | AwaitProperties rest reason \<Rightarrow> s
      | AwaitBreakpoint line \<Rightarrow> settle (SetBreakpoint line) (Inr False) s
      | AwaitResume \<Rightarrow> settle Continue (Inr False) s
      | AwaitNext \<Rightarrow> settle StepOver (Inr False) s
      | AwaitStep \<Rightarrow> settle StepInto (Inr False) s)"

definition node_sendMessage :: "string \<Rightarrow> oparams \<Rightarrow> ncont \<Rightarrow> node_state \<Rightarrow> node_state" where
  "node_sendMessage meth ps k s =
     (if \<not> connected s then node_reject k (Error ''Not connected to debugger'') s
      else (let ident = messageId s;
                s1 = s\<lparr>messageId := ident + 1,
                       pendingRequests := AList.update ident k (pendingRequests s)\<rparr>
            in case debuggerClient s1 of
                 None \<Rightarrow> node_reject k (TypeError ''Cannot read properties of null (reading 'send')'') s1
               | Some c \<Rightarrow>
                   setTimeout (RequestTimeout ident meth) 5000
                     (s1\<lparr>debuggerClient := Some (c\<lparr>sent := sent c @ [(ident, meth, ps)]\<rparr>)\<rparr>)))"

text \<open>The notification at the end of \<^verbatim>\<open>_handlePaused\<close>, chosen by the reason of the pause.\<close>

definition node_notifyPaused :: "string \<Rightarrow> node_state \<Rightarrow> node_state" where
  "node_notifyPaused reason s =
     (if reason = ''other'' \<or> reason = ''ambiguous''
      then notifyListeners (StepComplete (currentLine s) (variables s)) s
      else if reason = ''breakpoint''
      then notifyListeners (BreakpointHit (currentLine s) (variables s)) s
      else s)"

text \<open>
  The loop of \<^verbatim>\<open>_updateVariables\<close> from a given scope on: it suspends at the first local or
  global scope, and after the last scope it notifies and returns to \<^verbatim>\<open>_handlePaused\<close>.
\<close>

fun node_scopeLoop :: "scope list \<Rightarrow> string \<Rightarrow> node_state \<Rightarrow> node_state" where
  "node_scopeLoop [] reason s =
     node_notifyPaused reason (notifyListeners (VariablesUpdated (variables s)) s)"
| "node_scopeLoop (sc # rest) reason s =
     (if scopeType sc = ''local'' \<or> scopeType sc = ''global''
      then node_sendMessage ''Runtime.getProperties'' (OGetProperties (objectId sc) True)
             (AwaitProperties rest reason) s
      else node_scopeLoop rest reason s)"

definition node_updateVariables :: "scope list \<Rightarrow> string \<Rightarrow> node_state \<Rightarrow> node_state" where
  "node_updateVariables chain reason s = node_scopeLoop chain reason (s\<lparr>variables := []\<rparr>)"

text \<open>The inner loop of \<^verbatim>\<open>_updateVariables\<close> over the properties of one scope.\<close>

definition foldProperty :: "snapshot \<Rightarrow> propertyDescriptor \<Rightarrow> snapshot" where
  "foldProperty vs p =
     (case pvalue p of
        None \<Rightarrow> vs
      | Some v \<Rightarrow>
          if \<not> startsWith (pname p) ''__''
          then AList.update (pname p) (Var (node_formatValue v) (rtype v)) vs
          else vs)"

definition node_handlePaused :: "mparams \<Rightarrow> node_state \<Rightarrow> node_state" where
  "node_handlePaused ps s =
     (case ps of
        PausedParams reason frames \<Rightarrow>
          (case frames of
             [] \<Rightarrow> s
           | topFrame # others \<Rightarrow>
               node_updateVariables (scopeChain topFrame) reason
                 (s\<lparr>currentLine := lineNumber topFrame + 1\<rparr>))
      | _ \<Rightarrow> s)"

definition node_handleConsoleOutput :: "mparams \<Rightarrow> node_state \<Rightarrow> node_state" where
  "node_handleConsoleOutput ps s =
     (case ps of
        ConsoleParams ty as \<Rightarrow> notifyListeners (Output ty (joinSpace (map node_formatValue as))) s
      | _ \<Rightarrow> s)"

text \<open>
  The connection promise resolves: \<^verbatim>\<open>start\<close> returns \<^verbatim>\<open>true\<close>.
\<close>

definition node_connectResolved :: "node_state \<Rightarrow> node_state" where
  "node_connectResolved s =
     (if connectPending s then settle Start (Inr True) (s\<lparr>connectPending := False\<rparr>) else s)"

text \<open>A request's promise is resolved with the reply \<open>m\<close>.\<close>

definition node_resolve :: "ncont \<Rightarrow> message \<Rightarrow> node_state \<Rightarrow> node_state" where
  "node_resolve k m s =
     (case k of
        AwaitRuntimeEnable \<Rightarrow> node_sendMessage ''Debugger.enable'' OEmpty AwaitDebuggerEnable s
      | AwaitDebuggerEnable \<Rightarrow> node_sendMessage ''Runtime.getIsolateId'' OEmpty AwaitIsolateId s
      | AwaitIsolateId \<Rightarrow>
          (if msgResult m = NoResult
           then node_connectRejected (TypeError ''Cannot read properties of undefined (reading 'id')'') s
           else node_sendMessage ''Debugger.getScriptSource'' (OGetScriptSource ''1'') AwaitScriptSource s)
      | AwaitScriptSource \<Rightarrow> node_connectResolved (s\<lparr>scriptId := Some ''1''\<rparr>)
      | AwaitProperties rest reason \<Rightarrow>
          (case msgResult m of
             ResultArray props \<Rightarrow>
               node_scopeLoop rest reason (s\<lparr>variables := foldl foldProperty (variables s) props\<rparr>)
           | _ \<Rightarrow> s)
      | AwaitBreakpoint line \<Rightarrow>
          (case msgResult m of
             NoResult \<Rightarrow> settle (SetBreakpoint line) (Inr False) s
           | ResultArray props \<Rightarrow>
               settle (SetBreakpoint line) (Inr True)
                 (s\<lparr>breakpoints := AList.update line VUndefined (breakpoints s)\<rparr>)
           | ResultObject obj \<Rightarrow>
               settle (SetBreakpoint line) (Inr True)
                 (s\<lparr>breakpoints :=
                      AList.update line
                        (case map_of obj ''breakpointId'' of None \<Rightarrow> VUndefined | Some v \<Rightarrow> v)
                        (breakpoints s)\<rparr>))
      | AwaitResume \<Rightarrow> settle Continue (Inr True) s
      | AwaitNext \<Rightarrow> settle StepOver (Inr True) s
      | AwaitStep \<Rightarrow> settle StepInto (Inr True) s)"

definition node_handleMessage :: "message \<Rightarrow> node_state \<Rightarrow> node_state" where
  "node_handleMessage m s =
     (case (case msgId m of
              None \<Rightarrow> None
            | Some i \<Rightarrow> if i \<noteq> 0 then map_option (Pair i) (map_of (pendingRequests s) i) else None) of
        Some (i, k) \<Rightarrow>
          (let s1 = s\<lparr>pendingRequests := AList.delete i (pendingRequests s)\<rparr>
           in case msgError m of
                Some msg \<Rightarrow> node_reject k (Error msg) s1
              | None \<Rightarrow> node_resolve k m s1)
      | None \<Rightarrow>
          (case msgMethod m of
             None \<Rightarrow> s
           | Some meth \<Rightarrow>
               if meth = ''Debugger.paused'' then node_handlePaused (msgParams m) s
               else if meth = ''Runtime.consoleAPICalled'' then node_handleConsoleOutput (msgParams m) s
               else s))"

definition node_setBreakpoint :: "int \<Rightarrow> node_state \<Rightarrow> node_state" where
  "node_setBreakpoint line s =
     (if has (breakpoints s) line then settle (SetBreakpoint line) (Inr True) s
      else node_sendMessage ''Debugger.setBreakpointByUrl'' (OSetBreakpointByUrl (line - 1) ''.*'' 0)
             (AwaitBreakpoint line) s)"

definition node_continue :: "node_state \<Rightarrow> node_state" where
  "node_continue s = node_sendMessage ''Debugger.resume'' OEmpty AwaitResume s"

definition node_stepOver :: "node_state \<Rightarrow> node_state" where
  "node_stepOver s = node_sendMessage ''Debugger.stepOver'' OEmpty AwaitNext s"

definition node_stepInto :: "node_state \<Rightarrow> node_state" where
  "node_stepInto s = node_sendMessage ''Debugger.stepInto'' OEmpty AwaitStep s"


subsection \<open>Start\<close>

text \<open>
  \<^verbatim>\<open>output.match(/Debugger listening on (ws:\/\/[^:]+:(\d+)\/[^)]+)/)\<close>: the groups
  \<open>(address, port digits)\<close> of the first position that matches. Each run is maximal: the
  character that has to follow it is not in its class.
\<close>

definition matchListeningHere :: "string \<Rightarrow> (string \<times> string) option" where
  "matchListeningHere s =
     (if startsWith s ''Debugger listening on ws://''
      then (let r = drop 27 s;
                host = takeWhile (\<lambda>c. c \<noteq> CHR '':'') r;
                r1 = dropWhile (\<lambda>c. c \<noteq> CHR '':'') r;
                digits = takeWhile isDigit (tl r1);
                r2 = dropWhile isDigit (tl r1);
                path = takeWhile (\<lambda>c. c \<noteq> CHR '')'') (tl r2)
            in if host \<noteq> [] \<and> r1 \<noteq> [] \<and> digits \<noteq> [] \<and> r2 \<noteq> [] \<and> hd r2 = CHR ''/'' \<and> path \<noteq> []
               then Some (''ws://'' @ host @ '':'' @ digits @ ''/'' @ path, digits)
               else None)
      else None)"

fun matchListening :: "string \<Rightarrow> (string \<times> string) option" where
  "matchListening [] = None"
| "matchListening (c # cs) =
     (case matchListeningHere (c # cs) of
        Some g \<Rightarrow> Some g
      | None \<Rightarrow> matchListening cs)"

text \<open>The body of \<^verbatim>\<open>start\<close> up to the fixed wait: spawn the runtime, register the handlers.\<close>

definition node_start :: "string \<Rightarrow> node_state \<Rightarrow> node_state" where
  "node_start fp s =
     setTimeout StartDelay 1000
       (s\<lparr>debugProcess := Some \<lparr>spawnfile = ''node'', spawnargs = [''--inspect-brk'', fp],
                                   killed = False, stdin = []\<rparr>\<rparr>)"

definition node_onStdout :: "string \<Rightarrow> node_state \<Rightarrow> node_state" where
  "node_onStdout d s = notifyListeners (Output ''stdout'' (trim d)) s"

definition node_onStderr :: "string \<Rightarrow> node_state \<Rightarrow> node_state" where
  "node_onStderr d s =
     (let output = trim d;
          s1 = (case matchListening output of
                  None \<Rightarrow> s
                | Some (address, digits) \<Rightarrow> s\<lparr>port := parseInt digits\<rparr>)
      in notifyListeners (Output ''stderr'' output) s1)"

text \<open>\<^verbatim>\<open>_connectToInspector\<close> up to the creation of the client.\<close>

definition node_connectToInspector :: "node_state \<Rightarrow> node_state" where
  "node_connectToInspector s =
     s\<lparr>debuggerClient :=
          Some \<lparr>url = ''ws://localhost:'' @ intToString (port s) @ ''/ws'',
                closeCalled = False, sent = []\<rparr>,
       connectPending := True\<rparr>"

text \<open>The \<^verbatim>\<open>open\<close>, \<^verbatim>\<open>error\<close> and \<^verbatim>\<open>close\<close> handlers of the client.\<close>

definition node_onOpen :: "node_state \<Rightarrow> node_state" where
  "node_onOpen s = node_sendMessage ''Runtime.enable'' OEmpty AwaitRuntimeEnable (s\<lparr>connected := True\<rparr>)"

definition node_onError :: "string \<Rightarrow> node_state \<Rightarrow> node_state" where
  "node_onError e s = node_connectRejected (Error e) s"

definition node_onClose :: "node_state \<Rightarrow> node_state" where
  "node_onClose s = s\<lparr>connected := False\<rparr>"

subsection \<open>Timers and the environment\<close>

definition node_fire :: "ntimer \<Rightarrow> node_state \<Rightarrow> node_state" where
  "node_fire t s =
     (case t of
        StartDelay \<Rightarrow> node_connectToInspector s
      | RequestTimeout ident meth \<Rightarrow>
          (case map_of (pendingRequests s) ident of
             None \<Rightarrow> s
           | Some k \<Rightarrow>
               node_reject k (Error (''Request timed out: '' @ meth))
                 (s\<lparr>pendingRequests := AList.delete ident (pendingRequests s)\<rparr>)))"

definition node_tick :: "node_state \<Rightarrow> node_state" where
  "node_tick s =
     (case earliest (timers s) of
        None \<Rightarrow> s
      | Some (due, t) \<Rightarrow>
          node_fire t (s\<lparr>now := max (now s) due, timers := remove1 (due, t) (timers s)\<rparr>))"

text \<open>
  What happens to a session, one step at a time. A message that is not the text of a JSON
  object with the fields above (\<open>None\<close>) is logged and dropped by the \<^verbatim>\<open>message\<close> handler.
  \<^verbatim>\<open>start\<close> is called once, on a fresh instance; the handlers of the process and of the
  client exist once these are created.
\<close>

datatype node_input =
    N_Start string
  | N_Stdout string
  | N_Stderr string
  | N_Open
  | N_Message "message option"
  | N_Error string
  | N_Close
  | N_SetBreakpoint int
  | N_Continue
  | N_StepOver
  | N_StepInto
  | N_Stop
  | N_Tick
  | N_Elapse nat

definition node_step :: "node_input \<Rightarrow> node_state \<Rightarrow> node_state" where
  "node_step i s =
     (case i of
        N_Start fp \<Rightarrow> if debugProcess s = None then node_start fp s else s
      | N_Stdout d \<Rightarrow> if debugProcess s \<noteq> None then node_onStdout d s else s
      | N_Stderr d \<Rightarrow> if debugProcess s \<noteq> None then node_onStderr d s else s
      | N_Open \<Rightarrow> if debuggerClient s \<noteq> None then node_onOpen s else s
      | N_Message data \<Rightarrow>
          (case data of
             None \<Rightarrow> s
           | Some m \<Rightarrow> if debuggerClient s \<noteq> None then node_handleMessage m s else s)
      | N_Error e \<Rightarrow> if debuggerClient s \<noteq> None then node_onError e s else s
      | N_Close \<Rightarrow> if debuggerClient s \<noteq> None then node_onClose s else s
      | N_SetBreakpoint line \<Rightarrow> node_setBreakpoint line s
      | N_Continue \<Rightarrow> node_continue s
      | N_StepOver \<Rightarrow> node_stepOver s
      | N_StepInto \<Rightarrow> node_stepInto s
      | N_Stop \<Rightarrow> (case node_stop s of Inl e \<Rightarrow> s | Inr s' \<Rightarrow> s')
      | N_Tick \<Rightarrow> node_tick s
      | N_Elapse d \<Rightarrow> s\<lparr>now := now s + d\<rparr>)"

fun node_run :: "node_input list \<Rightarrow> node_state \<Rightarrow> node_state" where
  "node_run [] s = s"
| "node_run (i # is) s = node_run is (node_step i s)"


section \<open>Properties\<close>

subsection \<open>Command ordering of the REPL adapter\<close>








text \<open>The output lines on which the line handler touches the flag or the queue.\<close>

definition landingLine :: "string \<Rightarrow> bool" where
  "landingLine l =
     ((includesStr l ''Breakpoint hit:'' \<or> includesStr l ''Step completed:'') \<and> matchLineNumber l \<noteq> None)"




text \<open>
  Three sessions on \<^verbatim>\<open>/tmp/Solution.java\<close>. All start, compile and see the initialisation
  marker. In the quiet one, \<^verbatim>\<open>continue\<close> and \<^verbatim>\<open>stepOver\<close> are called one after the other and
  \<^verbatim>\<open>jdb\<close> echoes an assignment; in the busy one the session is observed right after
  \<^verbatim>\<open>continue\<close>; in the third, \<^verbatim>\<open>jdb\<close> prints an error line 50 ms after \<^verbatim>\<open>cont\<close> was written.
\<close>

definition startedSession :: "java_input list" where
  "startedSession =
     [J_Start ''/tmp/Solution.java'' None, J_JavacClose (Some 0), J_Line ''Initializing jdb ...'',
      J_Tick, J_Tick, J_Tick, J_Tick, J_Tick, J_Tick]"




subsection \<open>The compile step of the REPL adapter\<close>

text \<open>Output of the compiler, and what its handlers have captured from a list of inputs.\<close>

definition javacOutput :: "java_input \<Rightarrow> bool" where
  "javacOutput i = (case i of J_JavacStdout d \<Rightarrow> True | J_JavacStderr d \<Rightarrow> True | _ \<Rightarrow> False)"

fun capturedStderr :: "java_input list \<Rightarrow> string" where
  "capturedStderr [] = []"
| "capturedStderr (J_JavacStderr d # is) = d @ capturedStderr is"
| "capturedStderr (i # is) = capturedStderr is"

fun capturedStdout :: "java_input list \<Rightarrow> string" where
  "capturedStdout [] = []"
| "capturedStdout (J_JavacStdout d # is) = d @ capturedStdout is"
| "capturedStdout (i # is) = capturedStdout is"

definition failedCompile :: "java_input list" where
  "failedCompile =
     [J_JavacStdout ''warning'', J_JavacStderr ''Solution.java:3: error: '',
      J_JavacStderr '';  expected'']"

subsection \<open>Capture of assignment lines by the REPL adapter\<close>

text \<open>What the assignment branch of the line handler makes of a snapshot.\<close>

definition captured :: "string \<Rightarrow> snapshot \<Rightarrow> snapshot" where
  "captured l vs =
     (case matchAssignment l of
        None \<Rightarrow> vs
      | Some (name, g) \<Rightarrow>
          if name = ''__proto__'' then vs
          else AList.update name (Var (VStr (trim g)) (java_inferType (trim g))) vs)"

text \<open>The writes of the dump-locals command to the process.\<close>

definition localsWrites :: "java_state \<Rightarrow> (nat \<times> wsrc \<times> string) list" where
  "localsWrites s =
     (case debugProcess s of
        None \<Rightarrow> []
      | Some p \<Rightarrow> filter (\<lambda>w. fst (snd w) = ByGetVariables) (stdin p))"

subsection \<open>The connection of the message-protocol adapter\<close>

text \<open>
  Inputs while \<^verbatim>\<open>start\<close> waits: output of the runtime and time passing. The port the
  \<^verbatim>\<open>stderr\<close> handler has extracted from them, and the time that has passed.
\<close>

definition outputOrWait :: "node_input \<Rightarrow> bool" where
  "outputOrWait i =
     (case i of N_Stdout d \<Rightarrow> True | N_Stderr d \<Rightarrow> True | N_Elapse d \<Rightarrow> True | _ \<Rightarrow> False)"

fun announcedPort :: "node_input list \<Rightarrow> int \<Rightarrow> int" where
  "announcedPort [] p = p"
| "announcedPort (N_Stderr d # is) p =
     announcedPort is
       (case matchListening (trim d) of None \<Rightarrow> p | Some (address, digits) \<Rightarrow> parseInt digits)"
| "announcedPort (i # is) p = announcedPort is p"

fun elapsed :: "node_input list \<Rightarrow> nat" where
  "elapsed [] = 0"
| "elapsed (N_Elapse d # is) = d + elapsed is"
| "elapsed (i # is) = elapsed is"

definition announcement :: string where
  "announcement = ''Debugger listening on ws://127.0.0.1:9230/0f2c936f-b1cd''"

subsection \<open>Pauses of the message-protocol adapter\<close>


definition pausedEvent :: "string \<Rightarrow> callFrame list \<Rightarrow> message" where
  "pausedEvent reason frames =
     \<lparr>msgId = None, msgMethod = Some ''Debugger.paused'', msgParams = PausedParams reason frames,
      msgResult = NoResult, msgError = None\<rparr>"

definition propertiesReply :: "nat \<Rightarrow> propertyDescriptor list \<Rightarrow> message" where
  "propertiesReply i props =
     \<lparr>msgId = Some i, msgMethod = None, msgParams = NoParams, msgResult = ResultArray props,
      msgError = None\<rparr>"



definition ready :: "node_state \<Rightarrow> bool" where
  "ready s = (connected s \<and> debuggerClient s \<noteq> None \<and> messageId s \<noteq> 0)"

text \<open>
  A session of the message-protocol adapter up to the end of the handshake, and some scopes,
  properties and frames.
\<close>

definition okReply :: "nat \<Rightarrow> message" where
  "okReply i =
     \<lparr>msgId = Some i, msgMethod = None, msgParams = NoParams, msgResult = ResultObject [],
      msgError = None\<rparr>"

definition errorReply :: "nat \<Rightarrow> string \<Rightarrow> message" where
  "errorReply i e =
     \<lparr>msgId = Some i, msgMethod = None, msgParams = NoParams, msgResult = NoResult,
      msgError = Some e\<rparr>"

definition handshake :: "node_input list" where
  "handshake =
     [N_Start ''/tmp/a.js'', N_Stderr announcement, N_Tick, N_Open,
      N_Message (Some (okReply 1)), N_Message (Some (okReply 2)),
      N_Message (Some (okReply 3)), N_Message (Some (okReply 4))]"

definition connectedSession :: node_state where
  "connectedSession = node_run handshake NodeDebugger"

definition localScope :: scope where
  "localScope = \<lparr>scopeType = ''local'', objectId = ''o1''\<rparr>"

definition globalScope :: scope where
  "globalScope = \<lparr>scopeType = ''global'', objectId = ''o2''\<rparr>"

definition closureScope :: scope where
  "closureScope = \<lparr>scopeType = ''closure'', objectId = ''o3''\<rparr>"

definition numberProperty :: "string \<Rightarrow> int \<Rightarrow> propertyDescriptor" where
  "numberProperty n v =
     \<lparr>pname = n, pvalue = Some \<lparr>rtype = ''number'', rvalue = VNum v, rdescription = None\<rparr>\<rparr>"

definition frameAt :: "int \<Rightarrow> scope list \<Rightarrow> callFrame" where
  "frameAt l chain = \<lparr>lineNumber = l, scopeChain = chain\<rparr>"





subsection \<open>Request correlation of the message-protocol adapter\<close>

text \<open>
  The ids of the requests sent over the connection, in the order of sending, and what holds of
  them in every reachable state: they increase strictly and lie below the next id, as do the
  ids of the pending-request table, and no id is \<open>0\<close>.
\<close>

definition sentIds :: "node_state \<Rightarrow> nat list" where
  "sentIds s = (case debuggerClient s of None \<Rightarrow> [] | Some c \<Rightarrow> map fst (sent c))"

definition idsInv :: "node_state \<Rightarrow> bool" where
  "idsInv s =
     (sorted_wrt (<) (sentIds s) \<and> list_all (\<lambda>i. i < messageId s) (sentIds s) \<and> 0 < messageId s \<and>
      list_all (\<lambda>i. 0 < i \<and> i < messageId s) (map fst (pendingRequests s)))"

text \<open>The connected session with a \<^verbatim>\<open>continue\<close> and a \<^verbatim>\<open>stepOver\<close> outstanding.\<close>

definition twoOutstanding :: node_state where
  "twoOutstanding = node_run [N_Continue, N_StepOver] connectedSession"

subsection \<open>Breakpoints\<close>





definition javaStarted :: java_state where
  "javaStarted = java_run startedSession JavaDebugger"


subsection \<open>Stop\<close>

text \<open>
  What a caller and the listeners of the REPL adapter can observe of a session: whether the
  process has been killed, the line reader, the flags, the snapshot, the breakpoints, the
  current line, the events, the outcomes of the calls, the queue and the clock. The raw input
  of the process and the pending timers are left out.
\<close>

definition java_observable ::
  "java_state \<Rightarrow>
     bool option \<times> bool option \<times> bool \<times> snapshot \<times> (int \<times> jsval) list \<times> int \<times> event list \<times>
     (call \<times> (error + bool)) list \<times> (string \<times> jcont) list \<times> bool \<times> nat" where
  "java_observable s =
     (map_option killed (debugProcess s), rl s, isRunning s, variables s, breakpoints s,
      currentLine s, emitted s, returned s, commandQueue s, processingCommand s, now s)"

subsection \<open>Propagation of failure\<close>
















section \<open>Proofs\<close>

subsection \<open>Command ordering of the REPL adapter\<close>





























subsection \<open>Evaluation of concrete sessions\<close>

lemmas string_eval =
  trim_def isSpace_def isDigit_def isWord_def isLineTerminator_def endsWith_def newline_def
  dquote_def parseInt_def digitValue_def intToString_def natToString.simps digitChar_def
  basename_def matchAssignment_def matchListeningHere_def java_inferType_def stringIsNumber_def
  unsignedDecimal_def exponentOk_def radixLiteral_def Let_def

lemmas java_eval =
  java_step_def java_start_def java_compile_def java_javacStdout_def java_javacStderr_def
  java_javacClose_def java_spawnJdb_def java_initResolved_def java_onLine_def java_onLanding_def
  java_onAssignment_def java_onExit_def java_onError_def java_onInitialized_def java_fire_def
  java_tick_def java_stop_def java_startFailed_def java_reject_def java_resolve_def
  java_sendCommand_def java_processNextCommand_def java_queueCommand_def java_getVariables_def
  java_setBreakpoint_def java_continue_def java_stepOver_def java_stepInto_def
  JavaDebugger_def classNameStr_def setTimeout_def settle_def notifyListeners_def stdinWrite_def
  processKill_def tryCatch_def has_def

lemmas node_eval =
  node_step_def node_start_def node_onStdout_def node_onStderr_def node_connectToInspector_def
  node_onOpen_def node_onError_def node_onClose_def node_fire_def node_tick_def node_stop_def
  node_startFailed_def node_connectRejected_def node_reject_def node_sendMessage_def
  node_notifyPaused_def node_updateVariables_def foldProperty_def node_handlePaused_def
  node_handleConsoleOutput_def node_connectResolved_def node_resolve_def node_handleMessage_def
  node_setBreakpoint_def node_continue_def node_stepOver_def node_stepInto_def NodeDebugger_def
  clientClose_def processKill_def tryCatch_def setTimeout_def settle_def notifyListeners_def
  has_def node_formatValue_def toStr_def truthy_def

subsection \<open>The compile step of the REPL adapter\<close>

lemma java_run_append: "java_run (xs @ ys) s = java_run ys (java_run xs s)"
  by (induction xs arbitrary: s) auto

lemma javac_collects:
  "list_all javacOutput outs \<Longrightarrow> javac s = Some (a, out, err) \<Longrightarrow>
   java_run outs s = s\<lparr>javac := Some (a, out @ capturedStdout outs, err @ capturedStderr outs)\<rparr>"
proof (induction outs arbitrary: s out err)
  case Nil
  then show ?case by simp
next
  case (Cons i outs)
  show ?case
  proof (cases i)
    case (J_JavacStdout d)
    have "java_step i s = s\<lparr>javac := Some (a, out @ d, err)\<rparr>"
      using Cons.prems(2) J_JavacStdout by (simp add: java_step_def java_javacStdout_def)
    moreover have "javac (s\<lparr>javac := Some (a, out @ d, err)\<rparr>) = Some (a, out @ d, err)" by simp
    ultimately show ?thesis using Cons.IH[of "s\<lparr>javac := Some (a, out @ d, err)\<rparr>" "out @ d" err] Cons.prems(1) J_JavacStdout
      by simp
  next
    case (J_JavacStderr d)
    have "java_step i s = s\<lparr>javac := Some (a, out, err @ d)\<rparr>"
      using Cons.prems(2) J_JavacStderr by (simp add: java_step_def java_javacStderr_def)
    moreover have "javac (s\<lparr>javac := Some (a, out, err @ d)\<rparr>) = Some (a, out, err @ d)" by simp
    ultimately show ?thesis using Cons.IH[of "s\<lparr>javac := Some (a, out, err @ d)\<rparr>" out "err @ d"] Cons.prems(1) J_JavacStderr
      by simp
  qed (use Cons.prems(1) in \<open>simp_all add: javacOutput_def\<close>)
qed

text \<open>
  C8. The compile invocation \<^verbatim>\<open>start\<close> spawns has to close with exit code \<open>0\<close>: then \<^verbatim>\<open>jdb\<close> is
  spawned. With any other code \<^verbatim>\<open>start\<close> fails with the error
  \<^verbatim>\<open>Compilation failed: \<close> followed by everything the compiler wrote to its standard error, and
  there is neither a debugger process nor a line reader.
\<close>

theorem repl_compile_gate:
  assumes "list_all javacOutput outs"
  shows "(let s = java_run (J_Start fp cn # outs @ [J_JavacClose code]) JavaDebugger
          in if code = Some 0
             then returned s = [] \<and> map_option spawnfile (debugProcess s) = Some ''jdb''
             else returned s = [(Start, Inl (Error (''Compilation failed: '' @ capturedStderr outs)))] \<and>
                  debugProcess s = None \<and> rl s = None)"
proof -
  let ?s0 = "java_step (J_Start fp cn) JavaDebugger"
  obtain a where j0: "javac ?s0 = Some (a, [], [])"
    by (simp add: java_step_def java_start_def java_compile_def JavaDebugger_def)
  let ?s1 = "?s0\<lparr>javac := Some (a, capturedStdout outs, capturedStderr outs)\<rparr>"
  have r1: "java_run outs ?s0 = ?s1" using javac_collects[OF assms j0] by simp
  have run: "java_run (J_Start fp cn # outs @ [J_JavacClose code]) JavaDebugger = java_javacClose code ?s1"
    using r1 by (simp add: java_run_append java_step_def)
  have f: "debugProcess ?s1 = None" "rl ?s1 = None" "returned ?s1 = []" "timers ?s1 = []"
    by (simp_all add: java_step_def java_start_def java_compile_def JavaDebugger_def)
  show ?thesis
  proof (cases "code = Some 0")
    case True
    then show ?thesis unfolding run Let_def using f
      by (simp add: java_javacClose_def java_spawnJdb_def setTimeout_def Let_def)
  next
    case False
    then show ?thesis unfolding run Let_def using f
      by (simp add: java_javacClose_def java_startFailed_def java_stop_def settle_def Let_def)
  qed
qed

theorem repl_compile_gate_witness:
  "list_all javacOutput failedCompile \<and>
   returned (java_run (J_Start ''/tmp/Solution.java'' None # failedCompile @ [J_JavacClose (Some 1)]) JavaDebugger) =
     [(Start, Inl (Error ''Compilation failed: Solution.java:3: error: ;  expected''))] \<and>
   debugProcess (java_run (J_Start ''/tmp/Solution.java'' None # failedCompile @ [J_JavacClose (Some 1)]) JavaDebugger) = None \<and>
   returned (java_run (J_Start ''/tmp/Solution.java'' None # failedCompile @ [J_JavacClose (Some 0)]) JavaDebugger) = [] \<and>
   map_option spawnfile (debugProcess (java_run (J_Start ''/tmp/Solution.java'' None # failedCompile @ [J_JavacClose (Some 0)]) JavaDebugger)) = Some ''jdb''"
proof -
  have h: "list_all javacOutput failedCompile" by code_simp
  have c: "capturedStderr failedCompile = ''Solution.java:3: error: ;  expected''" by code_simp
  show ?thesis
    using h c repl_compile_gate [OF h, of "''/tmp/Solution.java''" None "Some 1"]
      repl_compile_gate [OF h, of "''/tmp/Solution.java''" None "Some 0"]
    by (simp add: Let_def)
qed

subsection \<open>Capture of assignment lines by the REPL adapter\<close>

lemma java_stop_variables: "java_stop s = Inr s' \<Longrightarrow> variables s' = variables s"
  by (auto simp: java_stop_def Let_def setTimeout_def tryCatch_def stdinWrite_def split: option.splits if_splits)

lemma java_stop_total: "\<exists>s'. java_stop s = Inr s'"
  by (simp add: java_stop_def Let_def)

lemma java_reject_variables: "variables (java_reject k e s) = variables s"
  using java_stop_variables[of s] java_stop_total[of s]
  by (auto simp: java_reject_def java_startFailed_def settle_def split: jcont.splits sum.splits)

lemma pnc_variables: "variables (java_processNextCommand s) = variables s"
  by (auto simp: java_processNextCommand_def java_sendCommand_def stdinWrite_def setTimeout_def
      java_reject_variables Let_def split: list.splits option.splits)

lemma queueCommand_variables: "variables (java_queueCommand c k s) = variables s"
  by (simp add: java_queueCommand_def Let_def pnc_variables)

lemma onLanding_variables:
  "variables (java_onLanding l s) = (if landingLine l then [] else variables s)"
  by (auto simp: java_onLanding_def landingLine_def java_getVariables_def java_sendCommand_def
      stdinWrite_def setTimeout_def Let_def split: option.splits)

lemma onAssignment_variables: "variables (java_onAssignment l s) = captured l (variables s)"
  by (auto simp: java_onAssignment_def captured_def Let_def split: option.splits)

lemma onExit_variables: "variables (java_onExit l s) = variables s"
  by (simp add: java_onExit_def pnc_variables notifyListeners_def)

lemma onError_variables: "variables (java_onError l s) = variables s"
  by (simp add: java_onError_def pnc_variables notifyListeners_def)

lemma onInitialized_variables: "variables (java_onInitialized l s) = variables s"
  by (simp add: java_onInitialized_def java_initResolved_def queueCommand_variables)

text \<open>
  C9, amended. While the line reader is open, a line of shape \<^verbatim>\<open>name = value\<close> is captured into
  the snapshot in every state, whether a dump-locals command is in flight or not (the name
  \<^verbatim>\<open>__proto__\<close> excepted); a landing line empties the snapshot first; a line of another shape
  that is not a landing line leaves the snapshot as it is.
\<close>

theorem repl_assignment_capture:
  assumes "rl s = Some True"
  shows "variables (java_step (J_Line l) s) = captured l (if landingLine l then [] else variables s)"
  using assms
  by (simp add: java_step_def java_onLine_def onInitialized_variables onError_variables
      onExit_variables onAssignment_variables onLanding_variables)

theorem repl_assignment_capture_witness:
  "rl (java_run startedSession JavaDebugger) = Some True \<and>
   \<not> landingLine ''  x = 5'' \<and>
   variables (java_step (J_Line ''  x = 5'') (java_run startedSession JavaDebugger)) =
     [(''x'', Var (VStr ''5'') ''number'')]"
proof -
  have h: "rl (java_run startedSession JavaDebugger) = Some True" by code_simp
  have v: "variables (java_run startedSession JavaDebugger) = []" by code_simp
  have l: "\<not> landingLine ''  x = 5''" by (simp add: landingLine_def)
  have c: "captured ''  x = 5'' [] = [(''x'', Var (VStr ''5'') ''number'')]"
    by (simp add: captured_def string_eval)
  show ?thesis using h l v c repl_assignment_capture [OF h, of "''  x = 5''"] by simp
qed

text \<open>
  No dump-locals command was ever written in this session, and the assignment line read from
  the output is in the snapshot.
\<close>

theorem repl_assignment_capture_counterexample:
  "localsWrites (java_run (startedSession @ [J_Line ''  x = 5'']) JavaDebugger) = [] \<and>
   variables (java_run startedSession JavaDebugger) = [] \<and>
   variables (java_run (startedSession @ [J_Line ''  x = 5'']) JavaDebugger) =
     [(''x'', Var (VStr ''5'') ''number'')]"
  by code_simp

subsection \<open>The connection of the message-protocol adapter\<close>

lemma node_run_append: "node_run (xs @ ys) s = node_run ys (node_run xs s)"
  by (induction xs arbitrary: s) auto

lemma waiting_run:
  "list_all outputOrWait pre \<Longrightarrow> debugProcess s \<noteq> None \<Longrightarrow>
   debuggerClient (node_run pre s) = debuggerClient s \<and>
   timers (node_run pre s) = timers s \<and>
   port (node_run pre s) = announcedPort pre (port s) \<and>
   now (node_run pre s) = now s + elapsed pre \<and>
   returned (node_run pre s) = returned s"
proof (induction pre arbitrary: s)
  case Nil
  then show ?case by simp
next
  case (Cons i pre)
  show ?case
  proof (cases i)
    case (N_Stdout d)
    let ?s1 = "node_step i s"
    have 1: "debugProcess ?s1 \<noteq> None" "debuggerClient ?s1 = debuggerClient s" "timers ?s1 = timers s"
      "port ?s1 = port s" "now ?s1 = now s" "returned ?s1 = returned s"
      using Cons.prems(2) N_Stdout by (simp_all add: node_step_def node_onStdout_def notifyListeners_def)
    show ?thesis using Cons.IH[of ?s1] Cons.prems(1) 1 N_Stdout by simp
  next
    case (N_Stderr d)
    let ?s1 = "node_step i s"
    have 1: "debugProcess ?s1 \<noteq> None" "debuggerClient ?s1 = debuggerClient s" "timers ?s1 = timers s"
      "port ?s1 = (case matchListening (trim d) of None \<Rightarrow> port s | Some (address, digits) \<Rightarrow> parseInt digits)"
      "now ?s1 = now s" "returned ?s1 = returned s"
      using Cons.prems(2) N_Stderr
      by (auto simp: node_step_def node_onStderr_def notifyListeners_def Let_def split: option.splits)
    show ?thesis using Cons.IH[of ?s1] Cons.prems(1) 1 N_Stderr by simp
  next
    case (N_Elapse d)
    let ?s1 = "node_step i s"
    have 1: "debugProcess ?s1 \<noteq> None" "debuggerClient ?s1 = debuggerClient s" "timers ?s1 = timers s"
      "port ?s1 = port s" "now ?s1 = now s + d" "returned ?s1 = returned s"
      using Cons.prems(2) N_Elapse by (simp_all add: node_step_def)
    show ?thesis using Cons.IH[of ?s1] Cons.prems(1) 1 N_Elapse by simp
  qed (use Cons.prems(1) in \<open>simp_all add: outputOrWait_def\<close>)
qed

text \<open>
  C10, amended. After spawning the runtime, \<^verbatim>\<open>start\<close> waits 1000 ms, whether the announcement
  of the listening endpoint has been read or not, and attempts no connection before. Then it
  connects to \<^verbatim>\<open>ws://localhost:PORT/ws\<close>, where the port is the one extracted by pattern
  matching from the last announcement read so far, or 9229 when there was none; host and path
  of the announcement are not used.
\<close>

theorem node_start_fixed_wait:
  assumes "list_all outputOrWait pre"
  shows "debuggerClient (node_run (N_Start fp # pre) NodeDebugger) = None \<and>
         debuggerClient (node_run (N_Start fp # pre @ [N_Tick]) NodeDebugger) =
           Some \<lparr>url = ''ws://localhost:'' @ intToString (announcedPort pre 9229) @ ''/ws'',
                 closeCalled = False, sent = []\<rparr> \<and>
         now (node_run (N_Start fp # pre @ [N_Tick]) NodeDebugger) = max (elapsed pre) 1000"
proof -
  let ?s0 = "node_step (N_Start fp) NodeDebugger"
  have s0: "debugProcess ?s0 \<noteq> None" "debuggerClient ?s0 = None" "timers ?s0 = [(1000, StartDelay)]"
    "port ?s0 = 9229" "now ?s0 = 0"
    by (simp_all add: node_step_def node_start_def NodeDebugger_def setTimeout_def)
  let ?s1 = "node_run pre ?s0"
  note w = waiting_run[OF assms s0(1)]
  have a: "debuggerClient ?s1 = None" using w s0 by simp
  have t: "node_step N_Tick ?s1 = node_connectToInspector (?s1\<lparr>now := max (now ?s1) 1000, timers := []\<rparr>)"
    using w s0 by (simp add: node_step_def node_tick_def node_fire_def)
  show ?thesis using a t w s0
    by (simp add: node_run_append node_connectToInspector_def)
qed

lemma announcement_match:
  "matchListening (trim announcement) = Some (''ws://127.0.0.1:9230/0f2c936f-b1cd'', ''9230'')"
  by (simp add: announcement_def matchListeningHere_def trim_def isSpace_def isDigit_def Let_def)

lemma port_strings:
  "parseInt ''9230'' = 9230" "intToString 9230 = ''9230''" "intToString 9229 = ''9229''"
  by (simp_all add: parseInt_def digitValue_def intToString_def natToString.simps digitChar_def)

theorem node_start_fixed_wait_witness:
  "list_all outputOrWait [N_Elapse 10, N_Stderr announcement] \<and>
   debuggerClient (node_run (N_Start ''/tmp/a.js'' # [N_Elapse 10, N_Stderr announcement]) NodeDebugger) = None \<and>
   debuggerClient
     (node_run (N_Start ''/tmp/a.js'' # [N_Elapse 10, N_Stderr announcement] @ [N_Tick]) NodeDebugger) =
     Some \<lparr>url = ''ws://localhost:9230/ws'', closeCalled = False, sent = []\<rparr> \<and>
   now (node_run (N_Start ''/tmp/a.js'' # [N_Elapse 10, N_Stderr announcement] @ [N_Tick]) NodeDebugger) = 1000"
proof -
  have h: "list_all outputOrWait [N_Elapse 10, N_Stderr announcement]"
    by (simp add: outputOrWait_def)
  have p: "intToString (announcedPort [N_Elapse 10, N_Stderr announcement] 9229) = ''9230''"
    by (simp add: announcement_match port_strings)
  show ?thesis
    using h p node_start_fixed_wait [OF h, of "''/tmp/a.js''"] by simp
qed

text \<open>
  The announced endpoint is \<^verbatim>\<open>ws://127.0.0.1:9230/0f2c936f-b1cd\<close>; the adapter connects to
  \<^verbatim>\<open>ws://localhost:9230/ws\<close>, 1000 ms after the start although the announcement came after
  10 ms, and without any announcement it connects to port 9229.
\<close>

theorem node_start_fixed_wait_counterexample:
  "matchListening (trim announcement) = Some (''ws://127.0.0.1:9230/0f2c936f-b1cd'', ''9230'') \<and>
   debuggerClient (node_run [N_Start ''/tmp/a.js'', N_Elapse 10, N_Stderr announcement] NodeDebugger) = None \<and>
   map_option url
     (debuggerClient
        (node_run [N_Start ''/tmp/a.js'', N_Elapse 10, N_Stderr announcement, N_Tick] NodeDebugger)) =
     Some ''ws://localhost:9230/ws'' \<and>
   now (node_run [N_Start ''/tmp/a.js'', N_Elapse 10, N_Stderr announcement, N_Tick] NodeDebugger) = 1000 \<and>
   map_option url (debuggerClient (node_run [N_Start ''/tmp/a.js'', N_Tick] NodeDebugger)) =
     Some ''ws://localhost:9229/ws''"
  by (simp add: node_eval announcement_match port_strings)

subsection \<open>Pauses of the message-protocol adapter\<close>




lemma announcement_trim: "trim announcement = announcement"
  by (simp add: announcement_def trim_def isSpace_def)

lemma announcement_found:
  "matchListening announcement = Some (''ws://127.0.0.1:9230/0f2c936f-b1cd'', ''9230'')"
  using announcement_match by (simp add: announcement_trim)

lemmas session_eval =
  handshake_def connectedSession_def okReply_def errorReply_def localScope_def globalScope_def
  closureScope_def numberProperty_def frameAt_def pausedEvent_def propertiesReply_def
  announcement_found announcement_trim port_strings

lemma connectedSession_state:
  "connectedSession =
     \<lparr>debugProcess = Some \<lparr>spawnfile = ''node'', spawnargs = [''--inspect-brk'', ''/tmp/a.js''],
                            killed = False, stdin = []\<rparr>,
      variables = [], breakpoints = [], currentLine = 0, isRunning = False, now = 1000,
      timers = [(6000, RequestTimeout 1 ''Runtime.enable''),
                (6000, RequestTimeout 2 ''Debugger.enable''),
                (6000, RequestTimeout 3 ''Runtime.getIsolateId''),
                (6000, RequestTimeout 4 ''Debugger.getScriptSource'')],
      emitted = [Output ''stderr'' announcement],
      returned = [(Start, Inr True)],
      debuggerClient = Some \<lparr>url = ''ws://localhost:9230/ws'', closeCalled = False,
                              sent = [(1, ''Runtime.enable'', OEmpty),
                                      (2, ''Debugger.enable'', OEmpty),
                                      (3, ''Runtime.getIsolateId'', OEmpty),
                                      (4, ''Debugger.getScriptSource'', OGetScriptSource ''1'')]\<rparr>,
      port = 9230, scriptId = Some ''1'', connected = True, messageId = 5,
      pendingRequests = [], connectPending = False\<rparr>"
  by (simp add: node_eval session_eval)

























subsection \<open>Request correlation of the message-protocol adapter\<close>

lemma idsInv_eqI:
  "idsInv s \<Longrightarrow> debuggerClient s' = debuggerClient s \<Longrightarrow> messageId s' = messageId s \<Longrightarrow>
   pendingRequests s' = pendingRequests s \<Longrightarrow> idsInv s'"
  by (simp add: idsInv_def sentIds_def)

lemma idsInv_projI:
  "idsInv s \<Longrightarrow> sentIds s' = sentIds s \<Longrightarrow> messageId s' = messageId s \<Longrightarrow>
   set (map fst (pendingRequests s')) \<subseteq> set (map fst (pendingRequests s)) \<Longrightarrow> idsInv s'"
proof -
  assume a: "idsInv s" and b: "sentIds s' = sentIds s" and c: "messageId s' = messageId s"
    and d: "set (map fst (pendingRequests s')) \<subseteq> set (map fst (pendingRequests s))"
  have a1: "sorted_wrt (<) (sentIds s)" "\<forall>i\<in>set (sentIds s). i < messageId s" "0 < messageId s"
    and a2: "\<forall>i\<in>set (map fst (pendingRequests s)). 0 < i \<and> i < messageId s"
    using a by (simp_all add: idsInv_def list_all_iff del: set_map)
  have "\<forall>i\<in>set (map fst (pendingRequests s')). 0 < i \<and> i < messageId s"
    using a2 d by blast
  then show ?thesis unfolding idsInv_def list_all_iff b c using a1 by blast
qed

lemma node_stop_total: "\<exists>s'. node_stop s = Inr s'"
  by (simp add: node_stop_def Let_def)

lemma node_stop_frame:
  "node_stop s = Inr s' \<Longrightarrow>
   sentIds s' = sentIds s \<and> messageId s' = messageId s \<and> pendingRequests s' = pendingRequests s \<and>
   returned s' = returned s \<and> connected s' = connected s \<and> timers s' = timers s"
  by (auto simp: node_stop_def Let_def tryCatch_def clientClose_def processKill_def sentIds_def
      split: option.splits if_splits)

lemma node_startFailed_frame:
  "sentIds (node_startFailed e s) = sentIds s \<and> messageId (node_startFailed e s) = messageId s \<and>
   pendingRequests (node_startFailed e s) = pendingRequests s \<and>
   connected (node_startFailed e s) = connected s \<and> timers (node_startFailed e s) = timers s"
proof -
  obtain s' where s': "node_stop s = Inr s'" using node_stop_total by blast
  show ?thesis using node_stop_frame[OF s'] by (simp add: node_startFailed_def s' settle_def sentIds_def)
qed

lemma node_connectRejected_frame:
  "sentIds (node_connectRejected e s) = sentIds s \<and> messageId (node_connectRejected e s) = messageId s \<and>
   pendingRequests (node_connectRejected e s) = pendingRequests s \<and>
   connected (node_connectRejected e s) = connected s \<and> timers (node_connectRejected e s) = timers s"
  using node_startFailed_frame[of e "s\<lparr>connectPending := False\<rparr>"]
  by (simp add: node_connectRejected_def sentIds_def)

lemma node_reject_frame:
  "sentIds (node_reject k e s) = sentIds s \<and> messageId (node_reject k e s) = messageId s \<and>
   pendingRequests (node_reject k e s) = pendingRequests s \<and>
   connected (node_reject k e s) = connected s \<and> timers (node_reject k e s) = timers s"
  using node_connectRejected_frame[of e s]
  by (cases k) (simp_all add: node_reject_def settle_def sentIds_def)

lemma sendMessage_pending:
  "map_of (pendingRequests (node_sendMessage meth ps k s)) j =
     (if connected s \<and> j = messageId s then Some k else map_of (pendingRequests s) j)"
  by (auto simp: node_sendMessage_def Let_def setTimeout_def node_reject_frame update_conv'
      split: option.splits)

lemma sendMessage_messageId:
  "messageId (node_sendMessage meth ps k s) = (if connected s then Suc (messageId s) else messageId s)"
  by (auto simp: node_sendMessage_def Let_def setTimeout_def node_reject_frame split: option.splits)

lemma sendMessage_idsInv: "idsInv s \<Longrightarrow> idsInv (node_sendMessage meth ps k s)"
proof -
  assume a: "idsInv s"
  show ?thesis
  proof (cases "connected s")
    case False
    have "idsInv (node_reject k (Error ''Not connected to debugger'') s)"
      by (rule idsInv_projI[OF a]) (simp_all add: node_reject_frame)
    then show ?thesis using False by (simp add: node_sendMessage_def)
  next
    case True
    let ?s1 = "s\<lparr>messageId := messageId s + 1,
                   pendingRequests := AList.update (messageId s) k (pendingRequests s)\<rparr>"
    have i1: "idsInv ?s1"
    proof -
      have a1: "sorted_wrt (<) (sentIds s)" "\<forall>i\<in>set (sentIds s). i < messageId s" "0 < messageId s"
        "\<forall>i\<in>set (map fst (pendingRequests s)). 0 < i \<and> i < messageId s"
        using a by (simp_all add: idsInv_def list_all_iff)
      have w: "sentIds ?s1 = sentIds s" by (simp add: sentIds_def)
      have 2: "\<forall>i\<in>set (sentIds ?s1). i < messageId ?s1" unfolding w using a1(2) by (auto intro: less_SucI)
      have 3: "\<forall>i\<in>set (map fst (pendingRequests ?s1)). 0 < i \<and> i < messageId ?s1"
        using a1(3,4) by (auto simp: update_keys intro: less_SucI)
      show ?thesis unfolding idsInv_def list_all_iff using a1(1) 2 3 w by simp
    qed
    show ?thesis
    proof (cases "debuggerClient s")
      case None
      have "idsInv (node_reject k (TypeError ''Cannot read properties of null (reading 'send')'') ?s1)"
        by (rule idsInv_projI[OF i1]) (simp_all add: node_reject_frame)
      then show ?thesis using True None by (simp add: node_sendMessage_def Let_def)
    next
      case (Some c)
      let ?s2 = "node_sendMessage meth ps k s"
      have f: "sentIds ?s2 = sentIds s @ [messageId s]" "messageId ?s2 = Suc (messageId s)"
        "pendingRequests ?s2 = AList.update (messageId s) k (pendingRequests s)"
        using True Some by (simp_all add: node_sendMessage_def Let_def setTimeout_def sentIds_def)
      have a1: "sorted_wrt (<) (sentIds s)" "\<forall>i\<in>set (sentIds s). i < messageId s" "0 < messageId s"
        "\<forall>i\<in>set (map fst (pendingRequests s)). 0 < i \<and> i < messageId s"
        using a by (simp_all add: idsInv_def list_all_iff)
      have 1: "sorted_wrt (<) (sentIds ?s2)" unfolding f using a1(1,2) by (simp add: sorted_wrt_append)
      have 2: "\<forall>i\<in>set (sentIds ?s2). i < messageId ?s2" unfolding f using a1(2) by (auto intro: less_SucI)
      have 3: "\<forall>i\<in>set (map fst (pendingRequests ?s2)). 0 < i \<and> i < messageId ?s2"
        unfolding f using a1(3,4) by (auto simp: update_keys intro: less_SucI)
      show ?thesis unfolding idsInv_def list_all_iff using 1 2 3 f(2) by simp
    qed
  qed
qed

lemma scopeLoop_idsInv: "idsInv s \<Longrightarrow> idsInv (node_scopeLoop chain reason s)"
proof (induction chain arbitrary: s)
  case Nil
  show ?case
    by (rule idsInv_eqI[OF Nil]) (simp_all add: node_notifyPaused_def notifyListeners_def)
next
  case (Cons sc rest)
  then show ?case by (simp add: sendMessage_idsInv)
qed

lemma scopeLoop_pending:
  "j < messageId s \<Longrightarrow>
   map_of (pendingRequests (node_scopeLoop chain reason s)) j = map_of (pendingRequests s) j"
proof (induction chain arbitrary: s)
  case Nil
  then show ?case by (simp add: node_notifyPaused_def notifyListeners_def)
next
  case (Cons sc rest)
  then show ?case by (simp add: sendMessage_pending)
qed

lemma resolve_idsInv: "idsInv s \<Longrightarrow> idsInv (node_resolve k m s)"
proof -
  assume a: "idsInv s"
  have v: "idsInv (s\<lparr>variables := x\<rparr>)" for x by (rule idsInv_eqI[OF a]) simp_all
  have r: "idsInv (node_connectRejected e s)" for e
    by (rule idsInv_projI[OF a]) (simp_all add: node_connectRejected_frame)
  have c: "idsInv (node_connectResolved (s\<lparr>scriptId := Some ''1''\<rparr>))"
    by (rule idsInv_eqI[OF a]) (simp_all add: node_connectResolved_def settle_def)
  have b: "idsInv (settle c r (s\<lparr>breakpoints := x\<rparr>))" for c r x
    by (rule idsInv_eqI[OF a]) (simp_all add: settle_def)
  have st: "idsInv (settle c r s)" for c r
    by (rule idsInv_eqI[OF a]) (simp_all add: settle_def)
  show ?thesis
    by (cases k) (auto simp: node_resolve_def a v r c b st sendMessage_idsInv scopeLoop_idsInv
        split: payload.splits)
qed

lemma resolve_pending:
  "j < messageId s \<Longrightarrow> map_of (pendingRequests (node_resolve k m s)) j = map_of (pendingRequests s) j"
  by (cases k)
     (auto simp: node_resolve_def sendMessage_pending scopeLoop_pending node_connectRejected_frame
       node_connectResolved_def settle_def split: payload.splits)

lemma delete_idsInv: "idsInv s \<Longrightarrow> idsInv (s\<lparr>pendingRequests := AList.delete i (pendingRequests s)\<rparr>)"
  by (rule idsInv_projI) (auto simp: sentIds_def delete_keys)

lemma handlePaused_idsInv: "idsInv s \<Longrightarrow> idsInv (node_handlePaused ps s)"
proof -
  assume a: "idsInv s"
  have "idsInv (s\<lparr>currentLine := l, variables := []\<rparr>)" for l by (rule idsInv_eqI[OF a]) simp_all
  then show ?thesis using a
    by (auto simp: node_handlePaused_def node_updateVariables_def scopeLoop_idsInv
        split: mparams.splits list.splits)
qed

lemma handleMessage_idsInv: "idsInv s \<Longrightarrow> idsInv (node_handleMessage m s)"
proof -
  assume a: "idsInv s"
  have c: "idsInv (node_handleConsoleOutput ps s)" for ps
    by (rule idsInv_eqI[OF a]) (auto simp: node_handleConsoleOutput_def notifyListeners_def split: mparams.splits)
  have r: "idsInv (node_reject k e (s\<lparr>pendingRequests := AList.delete i (pendingRequests s)\<rparr>))" for k e i
    by (rule idsInv_projI[OF delete_idsInv[OF a, of i]]) (simp_all add: node_reject_frame)
  show ?thesis using a c r
    by (auto simp: node_handleMessage_def Let_def handlePaused_idsInv resolve_idsInv delete_idsInv
        split: option.splits)
qed

lemma fire_idsInv: "idsInv s \<Longrightarrow> idsInv (node_fire t s)"
proof -
  assume a: "idsInv s"
  have c: "idsInv (node_connectToInspector s)" using a
    by (simp add: idsInv_def sentIds_def node_connectToInspector_def)
  have r: "idsInv (node_reject k e (s\<lparr>pendingRequests := AList.delete i (pendingRequests s)\<rparr>))" for k e i
    by (rule idsInv_projI[OF delete_idsInv[OF a, of i]]) (simp_all add: node_reject_frame)
  show ?thesis using a c r by (cases t) (auto simp: node_fire_def split: option.splits)
qed

lemma tick_idsInv: "idsInv s \<Longrightarrow> idsInv (node_tick s)"
proof -
  assume a: "idsInv s"
  have "idsInv (s\<lparr>now := n, timers := ts\<rparr>)" for n ts by (rule idsInv_eqI[OF a]) simp_all
  then show ?thesis using a by (auto simp: node_tick_def fire_idsInv split: option.splits)
qed

lemma step_idsInv: "idsInv s \<Longrightarrow> idsInv (node_step i s)"
proof -
  assume a: "idsInv s"
  have st: "idsInv (settle c r s)" for c r by (rule idsInv_eqI[OF a]) (simp_all add: settle_def)
  show ?thesis
  proof (cases i)
    case (N_Start fp)
    have "idsInv (node_start fp s)"
      by (rule idsInv_eqI[OF a]) (simp_all add: node_start_def setTimeout_def)
    then show ?thesis using a N_Start by (simp add: node_step_def)
  next
    case (N_Stdout d)
    have "idsInv (node_onStdout d s)"
      by (rule idsInv_eqI[OF a]) (simp_all add: node_onStdout_def notifyListeners_def)
    then show ?thesis using a N_Stdout by (simp add: node_step_def)
  next
    case (N_Stderr d)
    have "idsInv (node_onStderr d s)"
      by (rule idsInv_eqI[OF a]) (auto simp: node_onStderr_def notifyListeners_def Let_def split: option.splits)
    then show ?thesis using a N_Stderr by (simp add: node_step_def)
  next
    case N_Open
    have "idsInv (s\<lparr>connected := True\<rparr>)" by (rule idsInv_eqI[OF a]) simp_all
    then show ?thesis using a N_Open by (simp add: node_step_def node_onOpen_def sendMessage_idsInv)
  next
    case (N_Message data)
    then show ?thesis using a by (auto simp: node_step_def handleMessage_idsInv split: option.splits)
  next
    case (N_Error e)
    have "idsInv (node_onError e s)"
      by (rule idsInv_projI[OF a]) (simp_all add: node_onError_def node_connectRejected_frame)
    then show ?thesis using a N_Error by (simp add: node_step_def)
  next
    case N_Close
    have "idsInv (node_onClose s)" by (rule idsInv_eqI[OF a]) (simp_all add: node_onClose_def)
    then show ?thesis using a N_Close by (simp add: node_step_def)
  next
    case (N_SetBreakpoint line)
    then show ?thesis using a st by (simp add: node_step_def node_setBreakpoint_def sendMessage_idsInv)
  next
    case N_Continue
    then show ?thesis using a by (simp add: node_step_def node_continue_def sendMessage_idsInv)
  next
    case N_StepOver
    then show ?thesis using a by (simp add: node_step_def node_stepOver_def sendMessage_idsInv)
  next
    case N_StepInto
    then show ?thesis using a by (simp add: node_step_def node_stepInto_def sendMessage_idsInv)
  next
    case N_Stop
    obtain s' where s': "node_stop s = Inr s'" using node_stop_total by blast
    have "idsInv s'" by (rule idsInv_projI[OF a]) (use node_stop_frame[OF s'] in simp_all)
    then show ?thesis using N_Stop s' by (simp add: node_step_def)
  next
    case N_Tick
    then show ?thesis using a by (simp add: node_step_def tick_idsInv)
  next
    case (N_Elapse d)
    have "idsInv (s\<lparr>now := now s + d\<rparr>)" by (rule idsInv_eqI[OF a]) simp_all
    then show ?thesis using N_Elapse by (simp add: node_step_def)
  qed
qed

lemma run_idsInv: "idsInv s \<Longrightarrow> idsInv (node_run is s)"
  by (induction "is" arbitrary: s) (auto simp: step_idsInv)

lemma init_idsInv: "idsInv NodeDebugger"
  by (simp add: idsInv_def sentIds_def NodeDebugger_def)


lemma handleMessage_match:
  assumes "map_of (pendingRequests s) i = Some k" "i \<noteq> 0" "msgId m = Some i"
  shows "node_handleMessage m s =
           (case msgError m of
              Some e \<Rightarrow> node_reject k (Error e) (s\<lparr>pendingRequests := AList.delete i (pendingRequests s)\<rparr>)
            | None \<Rightarrow> node_resolve k m (s\<lparr>pendingRequests := AList.delete i (pendingRequests s)\<rparr>))"
  using assms by (simp add: node_handleMessage_def Let_def)

lemma handleMessage_others:
  assumes "map_of (pendingRequests s) i = Some k" "i \<noteq> 0" "msgId m = Some i" "j < messageId s"
  shows "map_of (pendingRequests (node_handleMessage m s)) j =
           (if j = i then None else map_of (pendingRequests s) j)"
proof -
  let ?s0 = "s\<lparr>pendingRequests := AList.delete i (pendingRequests s)\<rparr>"
  have d: "map_of (pendingRequests ?s0) j = (if j = i then None else map_of (pendingRequests s) j)"
    by (simp add: delete_conv')
  have m: "j < messageId ?s0" using assms(4) by simp
  show ?thesis
  proof (cases "msgError m")
    case None
    then show ?thesis using handleMessage_match[OF assms(1-3)] resolve_pending[OF m, of k m] d by simp
  next
    case (Some e)
    then show ?thesis using handleMessage_match[OF assms(1-3)] node_reject_frame[of k "Error e" ?s0] d
      by simp
  qed
qed

text \<open>
  C4. In every session the ids of the requests sent increase strictly. A request sent on an
  open connection takes the next id, is recorded in the pending-request table under it and
  gets a timeout 5000 ms ahead. An inbound message with the id of a pending entry resolves that
  entry's continuation with the message, or rejects it when the message carries an error, and
  removes the entry; every other entry stays as it is, so the reply to one of two outstanding
  requests leaves the other outstanding whatever the order of arrival. A timeout rejects its
  own request and removes its entry only.
\<close>

theorem node_request_correlation:
  "sorted_wrt (<) (sentIds (node_run inputs NodeDebugger)) \<and>
   (ready s \<longrightarrow>
      sentIds (node_sendMessage meth ps k s) = sentIds s @ [messageId s] \<and>
      messageId s < messageId (node_sendMessage meth ps k s) \<and>
      map_of (pendingRequests (node_sendMessage meth ps k s)) (messageId s) = Some k \<and>
      timers (node_sendMessage meth ps k s) =
        timers s @ [(now s + 5000, RequestTimeout (messageId s) meth)]) \<and>
   (map_of (pendingRequests s) i = Some k \<and> i \<noteq> 0 \<and> msgId m = Some i \<and> j < messageId s \<longrightarrow>
      node_handleMessage m s =
        (case msgError m of
           Some e \<Rightarrow> node_reject k (Error e) (s\<lparr>pendingRequests := AList.delete i (pendingRequests s)\<rparr>)
         | None \<Rightarrow> node_resolve k m (s\<lparr>pendingRequests := AList.delete i (pendingRequests s)\<rparr>)) \<and>
      map_of (pendingRequests (node_handleMessage m s)) j =
        (if j = i then None else map_of (pendingRequests s) j)) \<and>
   (map_of (pendingRequests s) i = Some k \<longrightarrow>
      node_fire (RequestTimeout i meth) s =
        node_reject k (Error (''Request timed out: '' @ meth))
          (s\<lparr>pendingRequests := AList.delete i (pendingRequests s)\<rparr>) \<and>
      pendingRequests (node_fire (RequestTimeout i meth) s) = AList.delete i (pendingRequests s))"
proof -
  have a: "sorted_wrt (<) (sentIds (node_run inputs NodeDebugger))"
    using run_idsInv[OF init_idsInv, of inputs] by (simp add: idsInv_def)
  have b: "sentIds (node_sendMessage meth ps k s) = sentIds s @ [messageId s] \<and>
      messageId s < messageId (node_sendMessage meth ps k s) \<and>
      map_of (pendingRequests (node_sendMessage meth ps k s)) (messageId s) = Some k \<and>
      timers (node_sendMessage meth ps k s) =
        timers s @ [(now s + 5000, RequestTimeout (messageId s) meth)]" if "ready s"
    using that
    by (auto simp: ready_def node_sendMessage_def Let_def setTimeout_def sentIds_def update_conv')
  have d: "node_fire (RequestTimeout i meth) s =
        node_reject k (Error (''Request timed out: '' @ meth))
          (s\<lparr>pendingRequests := AList.delete i (pendingRequests s)\<rparr>) \<and>
      pendingRequests (node_fire (RequestTimeout i meth) s) = AList.delete i (pendingRequests s)"
    if "map_of (pendingRequests s) i = Some k"
    using that by (simp add: node_fire_def node_reject_frame)
  show ?thesis using a b handleMessage_match handleMessage_others d by blast
qed


lemma twoOutstanding_state:
  "pendingRequests twoOutstanding = [(5, AwaitResume), (6, AwaitNext)]"
  "messageId twoOutstanding = 7"
  "returned twoOutstanding = [(Start, Inr True)]"
  "debuggerClient twoOutstanding \<noteq> None"
  by (simp_all add: twoOutstanding_def connectedSession_state node_eval)

theorem node_request_correlation_witness:
  "sentIds (node_run handshake NodeDebugger) = [1, 2, 3, 4] \<and>
   sorted_wrt (<) (sentIds (node_run handshake NodeDebugger)) \<and>
   ready connectedSession \<and>
   messageId connectedSession = 5 \<and>
   sentIds (node_sendMessage ''Debugger.resume'' OEmpty AwaitResume connectedSession) = [1, 2, 3, 4, 5] \<and>
   map_of (pendingRequests (node_sendMessage ''Debugger.resume'' OEmpty AwaitResume connectedSession)) 5 =
     Some AwaitResume \<and>
   timers (node_sendMessage ''Debugger.resume'' OEmpty AwaitResume connectedSession) =
     timers connectedSession @ [(6000, RequestTimeout 5 ''Debugger.resume'')] \<and>
   map_of (pendingRequests twoOutstanding) 6 = Some AwaitNext \<and>
   msgId (okReply 6) = Some 6 \<and>
   map_of (pendingRequests (node_handleMessage (okReply 6) twoOutstanding)) 6 = None \<and>
   map_of (pendingRequests (node_handleMessage (okReply 6) twoOutstanding)) 5 = Some AwaitResume \<and>
   returned (node_run [N_Message (Some (okReply 6)), N_Message (Some (okReply 5))] twoOutstanding) =
     [(Start, Inr True), (StepOver, Inr True), (Continue, Inr True)] \<and>
   returned (node_run [N_Message (Some (okReply 5)), N_Message (Some (okReply 6))] twoOutstanding) =
     [(Start, Inr True), (Continue, Inr True), (StepOver, Inr True)] \<and>
   map_of (pendingRequests twoOutstanding) 5 = Some AwaitResume \<and>
   pendingRequests (node_fire (RequestTimeout 5 ''Debugger.resume'') twoOutstanding) = [(6, AwaitNext)] \<and>
   returned (node_fire (RequestTimeout 5 ''Debugger.resume'') twoOutstanding) =
     [(Start, Inr True), (Continue, Inr False)]"
proof -
  have ids: "sentIds (node_run handshake NodeDebugger) = [1, 2, 3, 4]"
    unfolding connectedSession_def [symmetric] by (simp add: sentIds_def connectedSession_state)
  have r: "ready connectedSession" by (simp add: ready_def connectedSession_state)
  have c: "messageId connectedSession = 5" "sentIds connectedSession = [1, 2, 3, 4]"
    "now connectedSession = 1000"
    by (simp_all add: connectedSession_state sentIds_def)
  have p6: "map_of (pendingRequests twoOutstanding) 6 = Some AwaitNext"
    and p5: "map_of (pendingRequests twoOutstanding) 5 = Some AwaitResume"
    by (simp_all add: twoOutstanding_state)
  have m6: "msgId (okReply 6) = Some 6" by (simp add: okReply_def)
  note t1 = node_request_correlation [where inputs = handshake and s = connectedSession
      and meth = "''Debugger.resume''" and ps = OEmpty and k = AwaitResume and i = 0 and j = 0
      and m = "okReply 6"]
  note t2 = node_request_correlation [where inputs = handshake and s = twoOutstanding
      and meth = "''Debugger.resume''" and ps = OEmpty and k = AwaitNext and i = 6 and j = 6
      and m = "okReply 6"]
  note t3 = node_request_correlation [where inputs = handshake and s = twoOutstanding
      and meth = "''Debugger.resume''" and ps = OEmpty and k = AwaitNext and i = 6 and j = 5
      and m = "okReply 6"]
  note t4 = node_request_correlation [where inputs = handshake and s = twoOutstanding
      and meth = "''Debugger.resume''" and ps = OEmpty and k = AwaitResume and i = 5 and j = 5
      and m = "okReply 6"]
  have a1: "sorted_wrt (<) (sentIds (node_run handshake NodeDebugger))" using t1 by blast
  have "sentIds (node_sendMessage ''Debugger.resume'' OEmpty AwaitResume connectedSession) =
          sentIds connectedSession @ [messageId connectedSession] \<and>
        map_of (pendingRequests (node_sendMessage ''Debugger.resume'' OEmpty AwaitResume connectedSession))
          (messageId connectedSession) = Some AwaitResume \<and>
        timers (node_sendMessage ''Debugger.resume'' OEmpty AwaitResume connectedSession) =
          timers connectedSession @
          [(now connectedSession + 5000, RequestTimeout (messageId connectedSession) ''Debugger.resume'')]"
    using t1 r by blast
  then have a2: "sentIds (node_sendMessage ''Debugger.resume'' OEmpty AwaitResume connectedSession) = [1, 2, 3, 4, 5]"
    "map_of (pendingRequests (node_sendMessage ''Debugger.resume'' OEmpty AwaitResume connectedSession)) 5 =
     Some AwaitResume"
    "timers (node_sendMessage ''Debugger.resume'' OEmpty AwaitResume connectedSession) =
     timers connectedSession @ [(6000, RequestTimeout 5 ''Debugger.resume'')]"
    unfolding c by simp_all
  have n6: "(6::nat) \<noteq> 0" by simp
  have l6: "6 < messageId twoOutstanding" and l5: "5 < messageId twoOutstanding"
    by (simp_all add: twoOutstanding_state)
  have "map_of (pendingRequests (node_handleMessage (okReply 6) twoOutstanding)) 6 =
          (if (6::nat) = 6 then None else map_of (pendingRequests twoOutstanding) 6)"
    using t2 p6 m6 n6 l6 by blast
  then have a3: "map_of (pendingRequests (node_handleMessage (okReply 6) twoOutstanding)) 6 = None"
    by simp
  have "map_of (pendingRequests (node_handleMessage (okReply 6) twoOutstanding)) 5 =
          (if (5::nat) = 6 then None else map_of (pendingRequests twoOutstanding) 5)"
    using t3 p6 m6 n6 l5 by blast
  then have a4: "map_of (pendingRequests (node_handleMessage (okReply 6) twoOutstanding)) 5 = Some AwaitResume"
    using p5 by simp
  have "pendingRequests (node_fire (RequestTimeout 5 ''Debugger.resume'') twoOutstanding) =
          AList.delete 5 (pendingRequests twoOutstanding)"
    using t4 p5 by blast
  then have a5: "pendingRequests (node_fire (RequestTimeout 5 ''Debugger.resume'') twoOutstanding) = [(6, AwaitNext)]"
    by (simp add: twoOutstanding_state)
  have o1: "returned (node_run [N_Message (Some (okReply 6)), N_Message (Some (okReply 5))] twoOutstanding) =
     [(Start, Inr True), (StepOver, Inr True), (Continue, Inr True)]"
    by (simp add: node_step_def node_handleMessage_def twoOutstanding_state okReply_def node_resolve_def
        settle_def Let_def)
  have o2: "returned (node_run [N_Message (Some (okReply 5)), N_Message (Some (okReply 6))] twoOutstanding) =
     [(Start, Inr True), (Continue, Inr True), (StepOver, Inr True)]"
    by (simp add: node_step_def node_handleMessage_def twoOutstanding_state okReply_def node_resolve_def
        settle_def Let_def)
  have o3: "returned (node_fire (RequestTimeout 5 ''Debugger.resume'') twoOutstanding) =
     [(Start, Inr True), (Continue, Inr False)]"
    by (simp add: node_fire_def twoOutstanding_state node_reject_def settle_def)
  show ?thesis using ids a1 r c(1) a2 p6 m6 a3 a4 o1 o2 p5 a5 o3 by blast
qed

subsection \<open>Breakpoints\<close>







lemma javaStarted_state:
  "javaStarted =
     \<lparr>debugProcess = Some \<lparr>spawnfile = ''jdb'', spawnargs = [''Solution''], killed = False,
                            stdin = [(0, ByQueue, ''stop in Solution.main'' @ newline),
                                     (700, ByQueue, ''run'' @ newline)]\<rparr>,
      variables = [], breakpoints = [], currentLine = 0, isRunning = True, now = 1400,
      timers = [(3000, InitTimeout)], emitted = [], returned = [(Start, Inr True)],
      rl = Some True, className = Some ''Solution'', filePath = Some ''/tmp/Solution.java'',
      commandQueue = [], processingCommand = False, javac = None, initPending = False,
      onInitialized = False\<rparr>"
  unfolding javaStarted_def startedSession_def by (simp add: java_eval string_eval)







subsection \<open>Stop\<close>

text \<open>
  C6. \<^verbatim>\<open>stop\<close> returns normally in every state of either adapter. For the message-protocol
  adapter a second \<^verbatim>\<open>stop\<close> changes nothing at all: the process is killed, the connection (when
  it was open) closed and the running flag cleared by the first. For the REPL adapter a second
  \<^verbatim>\<open>stop\<close> changes nothing that can be observed: the line reader is closed and the running flag
  cleared by the first, which also schedules the kill; the second only repeats the best-effort
  \<^verbatim>\<open>quit\<close> and schedules the kill once more, and killing twice is killing once.
\<close>

theorem stop_idempotent:
  "(\<exists>n1. node_stop n = Inr n1 \<and> node_stop n1 = Inr n1 \<and> \<not> isRunning n1 \<and>
          map_option killed (debugProcess n1) = map_option (\<lambda>p. True) (debugProcess n) \<and>
          (connected n \<longrightarrow>
             map_option closeCalled (debuggerClient n1) = map_option (\<lambda>c. True) (debuggerClient n))) \<and>
   (\<exists>j1 j2. java_stop j = Inr j1 \<and> java_stop j1 = Inr j2 \<and>
          java_observable j2 = java_observable j1 \<and> \<not> isRunning j1 \<and>
          rl j1 = map_option (\<lambda>r. False) (rl j) \<and>
          (debugProcess j \<noteq> None \<longrightarrow> (now j + 500, KillProcess) \<in> set (timers j1)) \<and>
          timers j2 = timers j1 @ (if debugProcess j = None then [] else [(now j + 500, KillProcess)]) \<and>
          map_option stdin (debugProcess j2) =
            map_option (\<lambda>p. stdin p @ [(now j, ByStop, ''quit'' @ newline)]) (debugProcess j1)) \<and>
   java_fire KillProcess (java_fire KillProcess j) = java_fire KillProcess j \<and>
   map_option killed (debugProcess (java_fire KillProcess j)) = map_option (\<lambda>p. True) (debugProcess j)"
proof -
  have n: "\<exists>n1. node_stop n = Inr n1 \<and> node_stop n1 = Inr n1 \<and> \<not> isRunning n1 \<and>
          map_option killed (debugProcess n1) = map_option (\<lambda>p. True) (debugProcess n) \<and>
          (connected n \<longrightarrow>
             map_option closeCalled (debuggerClient n1) = map_option (\<lambda>c. True) (debuggerClient n))"
    by (cases "debuggerClient n"; cases "debugProcess n"; cases "connected n")
       (simp_all add: node_stop_def Let_def tryCatch_def clientClose_def processKill_def)
  have j: "\<exists>j1 j2. java_stop j = Inr j1 \<and> java_stop j1 = Inr j2 \<and>
          java_observable j2 = java_observable j1 \<and> \<not> isRunning j1 \<and>
          rl j1 = map_option (\<lambda>r. False) (rl j) \<and>
          (debugProcess j \<noteq> None \<longrightarrow> (now j + 500, KillProcess) \<in> set (timers j1)) \<and>
          timers j2 = timers j1 @ (if debugProcess j = None then [] else [(now j + 500, KillProcess)]) \<and>
          map_option stdin (debugProcess j2) =
            map_option (\<lambda>p. stdin p @ [(now j, ByStop, ''quit'' @ newline)]) (debugProcess j1)"
    by (cases "debugProcess j"; cases "rl j")
       (simp_all add: java_stop_def Let_def tryCatch_def stdinWrite_def setTimeout_def java_observable_def)
  have k: "java_fire KillProcess (java_fire KillProcess j) = java_fire KillProcess j"
    "map_option killed (debugProcess (java_fire KillProcess j)) = map_option (\<lambda>p. True) (debugProcess j)"
    by (cases "debugProcess j"; simp add: java_fire_def tryCatch_def processKill_def)+
  show ?thesis using n j k by blast
qed

theorem stop_idempotent_witness:
  "connected connectedSession \<and>
   debugProcess javaStarted \<noteq> None \<and>
   (\<exists>n1. node_stop connectedSession = Inr n1 \<and> node_stop n1 = Inr n1 \<and> \<not> isRunning n1 \<and>
          map_option killed (debugProcess n1) = Some True \<and>
          map_option closeCalled (debuggerClient n1) = Some True) \<and>
   (\<exists>j1 j2. java_stop javaStarted = Inr j1 \<and> java_stop j1 = Inr j2 \<and>
          java_observable j2 = java_observable j1 \<and> \<not> isRunning j1 \<and> rl j1 = Some False \<and>
          (1900, KillProcess) \<in> set (timers j1)) \<and>
   map_option killed (debugProcess (java_fire KillProcess javaStarted)) = Some True"
proof -
  have c: "connected connectedSession" "debugProcess connectedSession \<noteq> None"
    "debuggerClient connectedSession \<noteq> None"
    by (simp_all add: connectedSession_state)
  have d: "debugProcess javaStarted \<noteq> None" "now javaStarted = 1400" "rl javaStarted = Some True"
    by (simp_all add: javaStarted_state)
  note t = stop_idempotent [where n = connectedSession and j = javaStarted]
  show ?thesis using t c d by (auto simp: map_option_case split: option.splits)
qed

subsection \<open>Propagation of failure\<close>























lemma java_stop_returned: "java_stop s = Inr s' \<Longrightarrow> returned s' = returned s"
  by (auto simp: java_stop_def Let_def tryCatch_def stdinWrite_def setTimeout_def
      split: if_splits option.splits)










































end
